theory Spec2Isabelle
  imports Complex_Main
begin

unbundle bit_operations_syntax

chapter \<open>OVERWATCH: the ETL pipeline and the analytics views\<close>

text \<open>
  A shallow embedding of the worker (validators, transformer, database service, HTTP
  client, orchestrator) and of the analytics routes of the server. The first part holds
  the definitions, in the order of the data flow; the second part holds the lemmas and
  the theorems about them.
\<close>

section \<open>JavaScript values\<close>

text \<open>
  A JavaScript number is \<open>NaN\<close>, an infinity or a finite value. The finite values of the
  scalar fields of a record are integral (an age comes from \<open>parseInt\<close> or
  \<open>Math.floor\<close>), so a number in a field carries an \<open>int\<close>. The analytics, which divide
  and average, carry a \<open>rat\<close>: the handlers' own arithmetic rounds each result to the
  nearest binary64 number, as the engine does; the operators of the aggregation are
  kept exact.
\<close>

datatype 'a jsnum = NaN | PosInf | NegInf | Fin 'a

text \<open>
  A \<open>Date\<close> holds a time value: milliseconds since the epoch (UTC), or \<open>NaN\<close> for an
  \<open>Invalid Date\<close> (\<open>None\<close>). A string is a list of code units below 256. A GeoJSON point
  keeps its two coordinates.
\<close>

datatype jsval =
    JUndefined
  | JNull
  | JBool bool
  | JNum "int jsnum"
  | JStr string
  | JDate "int option"
  | JPoint rat rat

text \<open>\<open>a < b\<close> and \<open>a > b\<close> on numbers: every comparison with \<open>NaN\<close> is false.\<close>

fun num_less :: "'a::linorder jsnum \<Rightarrow> 'a jsnum \<Rightarrow> bool" where
  "num_less NaN _ = False"
| "num_less _ NaN = False"
| "num_less PosInf _ = False"
| "num_less _ NegInf = False"
| "num_less NegInf _ = True"
| "num_less _ PosInf = True"
| "num_less (Fin a) (Fin b) = (a < b)"

text \<open>Truthiness, as \<open>!x\<close> and \<open>if (x)\<close> read it.\<close>

fun truthy :: "jsval \<Rightarrow> bool" where
  "truthy JUndefined = False"
| "truthy JNull = False"
| "truthy (JBool b) = b"
| "truthy (JNum n) = (n \<noteq> NaN \<and> n \<noteq> Fin 0)"
| "truthy (JStr s) = (s \<noteq> [])"
| "truthy (JDate t) = True"
| "truthy (JPoint x y) = True"

text \<open>
  \<open>a !== b\<close> is the negation of strict equality: \<open>NaN\<close> differs from itself, and two
  objects are equal only when they are the same object, which a value read from a
  scraped record and a value read from a stored document never are.
\<close>

fun strict_eq :: "jsval \<Rightarrow> jsval \<Rightarrow> bool" where
  "strict_eq JUndefined JUndefined = True"
| "strict_eq JNull JNull = True"
| "strict_eq (JBool a) (JBool b) = (a = b)"
| "strict_eq (JNum a) (JNum b) = (a \<noteq> NaN \<and> a = b)"
| "strict_eq (JStr a) (JStr b) = (a = b)"
| "strict_eq _ _ = False"

section \<open>Dates of the host\<close>

text \<open>
  The host of a process: its time zone (a fixed offset from UTC in minutes and the name
  the engine prints for it) and the engine's own date parser (\<open>new Date(string)\<close>, which
  the language leaves to the implementation; \<open>None\<close> is an \<open>Invalid Date\<close>).
\<close>

record host =
  tz_offset :: int
  tz_name :: string
  native_parse :: "string \<Rightarrow> int option"

definition msPerDay :: int where
  "msPerDay = 86400000"

text \<open>
  Day number of a civil date and back (proleptic Gregorian calendar, day 0 is
  1970-01-01). Years are counted from 1 March, in eras of 400 years of 146097 days;
  \<open>mp\<close> is the month counted from March, \<open>yoe\<close> the year of the era, \<open>doe\<close> the day
  of the era and \<open>doy\<close> the day of the shifted year.
\<close>

definition doe_of :: "int \<Rightarrow> int \<Rightarrow> int" where
  "doe_of yoe doy = yoe * 365 + yoe div 4 - yoe div 100 + doy"

definition days_of_shifted :: "int \<Rightarrow> int \<Rightarrow> int \<Rightarrow> int" where
  "days_of_shifted y mp d =
     (y div 400) * 146097 + doe_of (y mod 400) ((153 * mp + 2) div 5 + d - 1) - 719468"

definition days_from_civil :: "int \<Rightarrow> int \<Rightarrow> int \<Rightarrow> int" where
  "days_from_civil y m d =
     days_of_shifted (if m \<le> 2 then y - 1 else y) (if m > 2 then m - 3 else m + 9) d"

definition civil_of_mp :: "int \<Rightarrow> int \<Rightarrow> int \<Rightarrow> int \<times> int \<times> int" where
  "civil_of_mp y doy mp =
     (if mp < 10 then (y, mp + 3, doy - (153 * mp + 2) div 5 + 1)
      else (y + 1, mp - 9, doy - (153 * mp + 2) div 5 + 1))"

definition civil_of_doy :: "int \<Rightarrow> int \<Rightarrow> int \<times> int \<times> int" where
  "civil_of_doy y doy = civil_of_mp y doy ((5 * doy + 2) div 153)"

definition civil_of_yoe :: "int \<Rightarrow> int \<Rightarrow> int \<Rightarrow> int \<times> int \<times> int" where
  "civil_of_yoe era doe yoe =
     civil_of_doy (yoe + era * 400) (doe - (365 * yoe + yoe div 4 - yoe div 100))"

definition civil_of_doe :: "int \<Rightarrow> int \<Rightarrow> int \<times> int \<times> int" where
  "civil_of_doe era doe =
     civil_of_yoe era doe ((doe - doe div 1460 + doe div 36524 - doe div 146096) div 365)"

text \<open>The civil date (year, month 1..12, day) of a day number.\<close>

definition civil_from_days :: "int \<Rightarrow> int \<times> int \<times> int" where
  "civil_from_days z = civil_of_doe ((z + 719468) div 146097) ((z + 719468) mod 146097)"

text \<open>
  \<open>new Date(year, monthIndex, day)\<close>: a year from 0 to 99 means 1900 + year, a month
  index outside 0..11 and a day outside the month carry over (MakeDay), and the result
  is midnight of that day in the host's zone.
\<close>

definition make_day :: "int \<Rightarrow> int \<Rightarrow> int \<Rightarrow> int" where
  "make_day year month date =
     days_from_civil (year + month div 12) (month mod 12 + 1) 1 + date - 1"

definition new_Date_ymd :: "host \<Rightarrow> int \<Rightarrow> int \<Rightarrow> int \<Rightarrow> jsval" where
  "new_Date_ymd h year month date =
     JDate (Some (make_day (if 0 \<le> year \<and> year \<le> 99 then 1900 + year else year) month date
                    * msPerDay - tz_offset h * 60000))"

text \<open>\<open>new Date(string)\<close>: the engine's parser.\<close>

definition new_Date_string :: "host \<Rightarrow> string \<Rightarrow> jsval" where
  "new_Date_string h s = JDate (native_parse h s)"

text \<open>\<open>isNaN(date.getTime())\<close>.\<close>

fun invalid_date :: "jsval \<Rightarrow> bool" where
  "invalid_date (JDate None) = True"
| "invalid_date _ = False"

subsection \<open>Decimal digits\<close>

definition digit_char :: "nat \<Rightarrow> char" where
  "digit_char n = ''0123456789'' ! n"

fun decimal :: "nat \<Rightarrow> string" where
  "decimal n = (if n < 10 then [digit_char n] else decimal (n div 10) @ [digit_char (n mod 10)])"

declare decimal.simps [simp del]

text \<open>A number padded with zeros on the left to at least \<open>w\<close> digits.\<close>

definition padded :: "nat \<Rightarrow> nat \<Rightarrow> string" where
  "padded w n = replicate (w - length (decimal n)) (CHR ''0'') @ decimal n"

definition int_string :: "int \<Rightarrow> string" where
  "int_string i = (if i < 0 then ''-'' @ decimal (nat (- i)) else decimal (nat i))"

subsection \<open>\<open>Date.prototype.toString\<close>\<close>

definition weekday_names :: "string list" where
  "weekday_names = [''Sun'', ''Mon'', ''Tue'', ''Wed'', ''Thu'', ''Fri'', ''Sat'']"

definition month_names :: "string list" where
  "month_names = [''Jan'', ''Feb'', ''Mar'', ''Apr'', ''May'', ''Jun'',
                  ''Jul'', ''Aug'', ''Sep'', ''Oct'', ''Nov'', ''Dec'']"

text \<open>
  The local time of the host, printed as \<open>Sun Feb 15 2026 00:00:00 GMT+0530 (India
  Standard Time)\<close>; an invalid date prints as \<open>Invalid Date\<close>.
\<close>

definition year_string :: "int \<Rightarrow> string" where
  "year_string y = (if y < 0 then ''-'' else []) @ padded 4 (nat \<bar>y\<bar>)"

fun civil_string :: "int \<times> int \<times> int \<Rightarrow> string" where
  "civil_string (y, m, d) =
     month_names ! nat (m - 1) @ '' '' @ padded 2 (nat d) @ '' '' @ year_string y"

definition day_string :: "int \<Rightarrow> string" where
  "day_string day =
     weekday_names ! nat ((day + 4) mod 7) @ '' '' @ civil_string (civil_from_days day)"

definition time_string :: "int \<Rightarrow> string" where
  "time_string ms =
     padded 2 (nat (ms div 3600000)) @ '':'' @ padded 2 (nat (ms div 60000 mod 60)) @ '':'' @
     padded 2 (nat (ms div 1000 mod 60))"

definition zone_string :: "host \<Rightarrow> string" where
  "zone_string h =
     ''GMT'' @ (if tz_offset h < 0 then ''-'' else ''+'') @
     padded 2 (nat (\<bar>tz_offset h\<bar> div 60)) @ padded 2 (nat (\<bar>tz_offset h\<bar> mod 60)) @
     '' ('' @ tz_name h @ '')''"

definition local_string :: "int \<Rightarrow> string" where
  "local_string local =
     day_string (local div msPerDay) @ '' '' @ time_string (local mod msPerDay)"

definition date_toString :: "host \<Rightarrow> int option \<Rightarrow> string" where
  "date_toString h tv =
     (case tv of
        None \<Rightarrow> ''Invalid Date''
      | Some t \<Rightarrow> local_string (t + tz_offset h * 60000) @ '' '' @ zone_string h)"

subsection \<open>String conversion in a template literal\<close>

fun num_toString :: "int jsnum \<Rightarrow> string" where
  "num_toString NaN = ''NaN''"
| "num_toString PosInf = ''Infinity''"
| "num_toString NegInf = ''-Infinity''"
| "num_toString (Fin i) = int_string i"

fun toString :: "host \<Rightarrow> jsval \<Rightarrow> string" where
  "toString h JUndefined = ''undefined''"
| "toString h JNull = ''null''"
| "toString h (JBool b) = (if b then ''true'' else ''false'')"
| "toString h (JNum n) = num_toString n"
| "toString h (JStr s) = s"
| "toString h (JDate t) = date_toString h t"
| "toString h (JPoint x y) = ''[object Object]''"

section \<open>SHA-256\<close>

text \<open>
  The digest \<open>createHash('sha256')\<close> computes (FIPS 180-4), on 32-bit words kept as
  natural numbers below \<open>2^32\<close> with the wrap-around of each addition written out.
\<close>

definition add32 :: "nat \<Rightarrow> nat \<Rightarrow> nat" where
  "add32 x y = (x + y) mod 4294967296"

definition rotr :: "nat \<Rightarrow> nat \<Rightarrow> nat" where
  "rotr n x = x div 2 ^ n + (x mod 2 ^ n) * 2 ^ (32 - n)"

text \<open>The bitwise choice and majority of three words; \<open>4294967295 - e\<close> is \<open>NOT e\<close>.\<close>

definition choose32 :: "nat \<Rightarrow> nat \<Rightarrow> nat \<Rightarrow> nat" where
  "choose32 e f g = (e AND f) XOR ((4294967295 - e) AND g)"

definition majority32 :: "nat \<Rightarrow> nat \<Rightarrow> nat \<Rightarrow> nat" where
  "majority32 a b c = (a AND b) XOR (a AND c) XOR (b AND c)"

definition bsig0 :: "nat \<Rightarrow> nat" where
  "bsig0 x = rotr 2 x XOR rotr 13 x XOR rotr 22 x"

definition bsig1 :: "nat \<Rightarrow> nat" where
  "bsig1 x = rotr 6 x XOR rotr 11 x XOR rotr 25 x"

definition ssig0 :: "nat \<Rightarrow> nat" where
  "ssig0 x = rotr 7 x XOR rotr 18 x XOR x div 2 ^ 3"

definition ssig1 :: "nat \<Rightarrow> nat" where
  "ssig1 x = rotr 17 x XOR rotr 19 x XOR x div 2 ^ 10"

text \<open>
  The round constants (from the cube roots of the first 64 primes) and the initial hash
  value (from the square roots of the first 8), in decimal.
\<close>

definition K256 :: "nat list" where
  "K256 =
     [1116352408, 1899447441, 3049323471, 3921009573, 961987163, 1508970993,
      2453635748, 2870763221, 3624381080, 310598401, 607225278, 1426881987,
      1925078388, 2162078206, 2614888103, 3248222580, 3835390401, 4022224774,
      264347078, 604807628, 770255983, 1249150122, 1555081692, 1996064986,
      2554220882, 2821834349, 2952996808, 3210313671, 3336571891, 3584528711,
      113926993, 338241895, 666307205, 773529912, 1294757372, 1396182291,
      1695183700, 1986661051, 2177026350, 2456956037, 2730485921, 2820302411,
      3259730800, 3345764771, 3516065817, 3600352804, 4094571909, 275423344,
      430227734, 506948616, 659060556, 883997877, 958139571, 1322822218,
      1537002063, 1747873779, 1955562222, 2024104815, 2227730452, 2361852424,
      2428436474, 2756734187, 3204031479, 3329325298]"

definition H256 :: "nat list" where
  "H256 = [1779033703, 3144134277, 1013904242, 2773480762,
           1359893119, 2600822924, 528734635, 1541459225]"

text \<open>
  Padding: the byte \<open>0x80\<close>, zeros up to 56 modulo 64, and the bit length of the message
  as a big-endian 64-bit number.
\<close>

definition sha_pad :: "nat list \<Rightarrow> nat list" where
  "sha_pad m =
     (let l = length m
      in m @ [128] @ replicate ((119 - l mod 64) mod 64) 0 @
         map (\<lambda>i. (8 * l) div 2 ^ (8 * (7 - i)) mod 256) [0, 1, 2, 3, 4, 5, 6, 7])"

fun be32 :: "nat list \<Rightarrow> nat list" where
  "be32 (a # b # c # d # r) = (((a * 256 + b) * 256 + c) * 256 + d) # be32 r"
| "be32 _ = []"

fun blocks :: "nat list \<Rightarrow> nat list list" where
  "blocks (w0 # w1 # w2 # w3 # w4 # w5 # w6 # w7 # w8 # w9 # w10 # w11 # w12 # w13 # w14 # w15 # r) =
     [w0, w1, w2, w3, w4, w5, w6, w7, w8, w9, w10, w11, w12, w13, w14, w15] # blocks r"
| "blocks _ = []"

text \<open>One round on the eight working variables.\<close>

fun mix :: "nat \<Rightarrow> nat \<Rightarrow> nat list \<Rightarrow> nat list" where
  "mix t1 t2 [a, b, c, d, e, f, g, h] = [add32 t1 t2, a, b, c, add32 d t1, e, f, g]"
| "mix t1 t2 s = s"

fun sha_round :: "nat \<Rightarrow> nat \<Rightarrow> nat list \<Rightarrow> nat list" where
  "sha_round k w [a, b, c, d, e, f, g, h] =
     mix (add32 (add32 (add32 (add32 h (bsig1 e)) (choose32 e f g)) k) w)
         (add32 (bsig0 a) (majority32 a b c)) [a, b, c, d, e, f, g, h]"
| "sha_round k w s = s"

text \<open>
  The 64 rounds, one per constant. The message schedule is a sliding window of sixteen
  words: round \<open>t\<close> uses its first word \<open>W\<^sub>t\<close> and appends \<open>W\<^sub>t\<^sub>+\<^sub>1\<^sub>6\<close>.
\<close>

fun sha_rounds :: "nat list \<Rightarrow> nat list \<Rightarrow> nat list \<Rightarrow> nat list" where
  "sha_rounds (k # ks) [w0, w1, w2, w3, w4, w5, w6, w7, w8, w9, w10, w11, w12, w13, w14, w15] s =
     sha_rounds ks [w1, w2, w3, w4, w5, w6, w7, w8, w9, w10, w11, w12, w13, w14, w15,
                    add32 (add32 (add32 (ssig1 w14) w9) (ssig0 w1)) w0] (sha_round k w0 s)"
| "sha_rounds ks ws s = s"

definition compress :: "nat list \<Rightarrow> nat list \<Rightarrow> nat list" where
  "compress hs blk = map2 add32 hs (sha_rounds K256 blk hs)"

definition hex_char :: "nat \<Rightarrow> char" where
  "hex_char n = ''0123456789abcdef'' ! n"

definition hex32 :: "nat \<Rightarrow> string" where
  "hex32 w = map (\<lambda>i. hex_char (w div 16 ^ (7 - i) mod 16)) [0, 1, 2, 3, 4, 5, 6, 7]"

definition sha256_hex :: "nat list \<Rightarrow> string" where
  "sha256_hex m = concat (map hex32 (foldl compress H256 (blocks (be32 (sha_pad m)))))"

text \<open>
  \<open>hash.update(string)\<close> hashes the UTF-8 encoding of the string: one byte for a code
  unit below 128, two bytes for one from 128 to 255.
\<close>

definition utf8 :: "string \<Rightarrow> nat list" where
  "utf8 s = concat (map (\<lambda>c. let n = of_char c :: nat
                              in if n < 128 then [n] else [192 + n div 64, 128 + n mod 64]) s)"

section \<open>Records\<close>

text \<open>
  \<open>Partial<MissingPerson>\<close>: every field may be absent (\<open>JUndefined\<close>), and nothing at run
  time holds a field to its declared type, so each field is a value. The identity of a
  stored document (\<open>_id\<close>) is its position in the collection.
\<close>

record person =
  name :: jsval
  age :: jsval
  gender :: jsval
  lastSeenDate :: jsval
  lastKnownLocation :: jsval
  geolocation :: jsval
  status :: jsval
  description :: jsval
  photoUrl :: jsval
  contactName :: jsval
  contactPhone :: jsval
  sourceURL :: jsval
  sourceState :: jsval
  createdAt :: jsval
  updatedAt :: jsval
  dataHash :: jsval

definition no_fields :: person where
  "no_fields = \<lparr>name = JUndefined, age = JUndefined, gender = JUndefined,
     lastSeenDate = JUndefined, lastKnownLocation = JUndefined, geolocation = JUndefined,
     status = JUndefined, description = JUndefined, photoUrl = JUndefined,
     contactName = JUndefined, contactPhone = JUndefined, sourceURL = JUndefined,
     sourceState = JUndefined, createdAt = JUndefined, updatedAt = JUndefined,
     dataHash = JUndefined\<rparr>"

section \<open>validators.ts\<close>

subsection \<open>generateDataHash\<close>

text \<open>
  The template literal \<open>`${person.name}-${person.lastSeenDate}-${person.sourceURL}`\<close>
  converts each of the three fields to a string; the digest is printed in hexadecimal.
\<close>

definition identifierString :: "host \<Rightarrow> person \<Rightarrow> string" where
  "identifierString h p =
     toString h (name p) @ ''-'' @ toString h (lastSeenDate p) @ ''-'' @ toString h (sourceURL p)"

definition generateDataHash :: "host \<Rightarrow> person \<Rightarrow> string" where
  "generateDataHash h p = sha256_hex (utf8 (identifierString h p))"

subsection \<open>normalizeText\<close>

text \<open>White space (\<open>\s\<close>, and what \<open>trim\<close> removes) among the code units below 256.\<close>

definition is_space :: "char \<Rightarrow> bool" where
  "is_space c = (of_char c \<in> {9, 10, 11, 12, 13, 32, 160 :: nat})"

definition trim :: "string \<Rightarrow> string" where
  "trim s = rev (dropWhile is_space (rev (dropWhile is_space s)))"

text \<open>
  \<open>replace(/\s+/g, ' ')\<close>: every run of white space becomes one space. The flag says
  that the previous code unit was white space.
\<close>

fun collapse_spaces :: "bool \<Rightarrow> string \<Rightarrow> string" where
  "collapse_spaces prev [] = []"
| "collapse_spaces prev (c # cs) =
     (if is_space c then (if prev then collapse_spaces True cs
                          else CHR '' '' # collapse_spaces True cs)
      else c # collapse_spaces False cs)"

definition normalizeText :: "string \<Rightarrow> string" where
  "normalizeText t = collapse_spaces False (trim t)"

subsection \<open>The two regular expressions of parseIndianDate\<close>

definition is_digit :: "char \<Rightarrow> bool" where
  "is_digit c = (48 \<le> (of_char c :: nat) \<and> (of_char c :: nat) \<le> 57)"

definition is_letter :: "char \<Rightarrow> bool" where
  "is_letter c = ((65 \<le> (of_char c :: nat) \<and> (of_char c :: nat) \<le> 90) \<or>
                  (97 \<le> (of_char c :: nat) \<and> (of_char c :: nat) \<le> 122))"

text \<open>
  The ways a greedy quantifier \<open>x+\<close> can match at the start of a string, longest match
  first (the order in which backtracking tries them): the matched prefix and the rest.
\<close>

fun one_or_more :: "(char \<Rightarrow> bool) \<Rightarrow> string \<Rightarrow> (string \<times> string) list" where
  "one_or_more P [] = []"
| "one_or_more P (c # cs) =
     (if P c then map (\<lambda>(p, r). (c # p, r)) (one_or_more P cs) @ [([c], cs)] else [])"

text \<open>\<open>\d{1,2}\<close>, \<open>[-\/]\<close> and \<open>\d{4}\<close>.\<close>

definition digits12 :: "string \<Rightarrow> (string \<times> string) list" where
  "digits12 s = filter (\<lambda>(p, r). length p \<le> 2) (one_or_more is_digit s)"

fun separator :: "string \<Rightarrow> string list" where
  "separator (c # r) = (if c = CHR ''-'' \<or> c = CHR ''/'' then [r] else [])"
| "separator [] = []"

fun digits4 :: "string \<Rightarrow> string list" where
  "digits4 (a # b # c # d # r) =
     (if is_digit a \<and> is_digit b \<and> is_digit c \<and> is_digit d then [[a, b, c, d]] else [])"
| "digits4 _ = []"

text \<open>
  \<open>/(\d{1,2})[-\/](\d{1,2})[-\/](\d{4})/\<close> matched at the start of a string: the three
  groups of the first way to match, if there is one.
\<close>

definition numeric_at :: "string \<Rightarrow> (string \<times> string \<times> string) option" where
  "numeric_at s =
     (case [(d, m, y). (d, r1) \<leftarrow> digits12 s, r2 \<leftarrow> separator r1,
                        (m, r3) \<leftarrow> digits12 r2, r4 \<leftarrow> separator r3, y \<leftarrow> digits4 r4] of
        [] \<Rightarrow> None
      | g # _ \<Rightarrow> Some g)"

text \<open>\<open>/(\d{1,2})\s+([A-Za-z]+)\s+(\d{4})/\<close> matched at the start of a string.\<close>

definition month_name_at :: "string \<Rightarrow> (string \<times> string \<times> string) option" where
  "month_name_at s =
     (case [(d, w, y). (d, r1) \<leftarrow> digits12 s, (s1, r2) \<leftarrow> one_or_more is_space r1,
                        (w, r3) \<leftarrow> one_or_more is_letter r2,
                        (s2, r4) \<leftarrow> one_or_more is_space r3, y \<leftarrow> digits4 r4] of
        [] \<Rightarrow> None
      | g # _ \<Rightarrow> Some g)"

text \<open>\<open>String.prototype.match\<close> without the \<open>g\<close> flag: the leftmost match.\<close>

fun leftmost :: "(string \<Rightarrow> 'a option) \<Rightarrow> string \<Rightarrow> 'a option" where
  "leftmost f [] = f []"
| "leftmost f (c # cs) = (case f (c # cs) of Some g \<Rightarrow> Some g | None \<Rightarrow> leftmost f cs)"

text \<open>\<open>parseInt\<close> of a string of decimal digits.\<close>

definition parseInt_digits :: "string \<Rightarrow> int" where
  "parseInt_digits s = foldl (\<lambda>a c. 10 * a + (int (of_char c) - 48)) 0 s"

subsection \<open>parseIndianDate\<close>

text \<open>The result is a \<open>Date\<close> or \<open>null\<close>.\<close>

definition date_or_null :: "jsval \<Rightarrow> jsval" where
  "date_or_null date = (if invalid_date date then JNull else date)"

definition parseIndianDate :: "host \<Rightarrow> string \<Rightarrow> jsval" where
  "parseIndianDate h dateString =
     (let normalized = normalizeText dateString
      in case leftmost numeric_at normalized of
           Some (day, month, year) \<Rightarrow>
             new_Date_ymd h (parseInt_digits year) (parseInt_digits month - 1) (parseInt_digits day)
         | None \<Rightarrow>
             (case leftmost month_name_at normalized of
                Some (day, monthStr, year) \<Rightarrow>
                  date_or_null (new_Date_string h (monthStr @ '' '' @ day @ '', '' @ year))
              | None \<Rightarrow> date_or_null (new_Date_string h normalized)))"

text \<open>What the two fallbacks hand to \<open>new Date(string)\<close>.\<close>

definition engine_input :: "string \<Rightarrow> string" where
  "engine_input dateString =
     (case leftmost month_name_at (normalizeText dateString) of
        Some (day, monthStr, year) \<Rightarrow> monthStr @ '' '' @ day @ '', '' @ year
      | None \<Rightarrow> normalizeText dateString)"

text \<open>
  For comparison, the words of the specification, \<open>a valid calendar date\<close>: a month from
  1 to 12 and a day from 1 to the length of that month in that year.
\<close>

definition leap_year :: "int \<Rightarrow> bool" where
  "leap_year y = (y mod 4 = 0 \<and> (y mod 100 \<noteq> 0 \<or> y mod 400 = 0))"

definition days_in_month :: "int \<Rightarrow> int \<Rightarrow> int" where
  "days_in_month y m =
     (if m = 2 then (if leap_year y then 29 else 28)
      else if m \<in> {4, 6, 9, 11} then 30 else 31)"

definition spec_calendar_date :: "int \<Rightarrow> int \<Rightarrow> int \<Rightarrow> bool" where
  "spec_calendar_date y m d = (1 \<le> m \<and> m \<le> 12 \<and> 1 \<le> d \<and> d \<le> days_in_month y m)"

subsection \<open>validateExtractedData\<close>

text \<open>
  The argument is \<open>unknown\<close>: a value, or an object seen through the fields the validator
  reads (a field the object lacks is \<open>JUndefined\<close>).
\<close>

datatype unknown = Value jsval | Object person

fun typeof :: "jsval \<Rightarrow> string" where
  "typeof JUndefined = ''undefined''"
| "typeof JNull = ''object''"
| "typeof (JBool b) = ''boolean''"
| "typeof (JNum n) = ''number''"
| "typeof (JStr s) = ''string''"
| "typeof (JDate t) = ''object''"
| "typeof (JPoint x y) = ''object''"

record validation =
  valid :: bool
  errors :: "string list"

text \<open>\<open>typeof age !== 'number' || age < 0 || age > 150\<close>.\<close>

fun age_rejected :: "jsval \<Rightarrow> bool" where
  "age_rejected (JNum n) = (num_less n (Fin 0) \<or> num_less (Fin 150) n)"
| "age_rejected _ = True"

text \<open>\<open>['male', 'female', 'other'].includes(gender)\<close>.\<close>

fun gender_listed :: "jsval \<Rightarrow> bool" where
  "gender_listed (JStr s) = (s \<in> set [''male'', ''female'', ''other''])"
| "gender_listed _ = False"

text \<open>\<open>lastSeenDate instanceof Date\<close>.\<close>

fun instanceof_Date :: "jsval \<Rightarrow> bool" where
  "instanceof_Date (JDate t) = True"
| "instanceof_Date _ = False"

text \<open>The five rules, each pushing its message, in the order of the source.\<close>

definition field_errors :: "person \<Rightarrow> string list" where
  "field_errors p =
     (if \<not> truthy (name p) \<or> typeof (name p) \<noteq> ''string''
      then [''Name is required and must be a string''] else []) @
     (if age_rejected (age p)
      then [''Age must be a number between 0 and 150''] else []) @
     (if \<not> gender_listed (gender p)
      then [''Gender must be male, female, or other''] else []) @
     (if \<not> instanceof_Date (lastSeenDate p)
      then [''Last seen date must be a valid date''] else []) @
     (if \<not> truthy (lastKnownLocation p) \<or> typeof (lastKnownLocation p) \<noteq> ''string''
      then [''Last known location is required''] else [])"

definition checked :: "person \<Rightarrow> validation" where
  "checked p = \<lparr>valid = (length (field_errors p) = 0), errors = field_errors p\<rparr>"

fun validateExtractedData :: "unknown \<Rightarrow> validation" where
  "validateExtractedData (Value v) =
     (if \<not> truthy v \<or> typeof v \<noteq> ''object''
      then \<lparr>valid = False, errors = [''Data must be an object'']\<rparr>
      else checked no_fields)"
| "validateExtractedData (Object p) = checked p"

section \<open>transformer.ts\<close>

text \<open>
  \<open>DataTransformer.transform\<close>: the loop pushes each record either to \<open>valid\<close> or, with
  its errors, to \<open>invalid\<close>. The result is the pair of the two arrays.
\<close>

type_synonym invalid_entry = "person \<times> string list"

fun transform_loop ::
  "person list \<Rightarrow> person list \<times> invalid_entry list \<Rightarrow> person list \<times> invalid_entry list" where
  "transform_loop [] acc = acc"
| "transform_loop (r # rs) (ok, bad) =
     (if valid (validateExtractedData (Object r))
      then transform_loop rs (ok @ [r], bad)
      else transform_loop rs (ok, bad @ [(r, errors (validateExtractedData (Object r)))]))"

definition transform :: "person list \<Rightarrow> person list \<times> invalid_entry list" where
  "transform rawRecords = transform_loop rawRecords ([], [])"

section \<open>The storage and the logs\<close>

text \<open>
  What a run reads and changes outside itself: the collection of stored documents, in
  the order of insertion, and the calls made to the error logger. An error is thrown
  either by a call to the storage or by the HTTP client (code, message, source URL).
\<close>

datatype storage_call = FindOne | UpdateOne | Create

datatype error = StorageError storage_call | ScraperError string string string

fun message :: "error \<Rightarrow> string" where
  "message (StorageError FindOne) = ''findOne failed''"
| "message (StorageError UpdateOne) = ''updateOne failed''"
| "message (StorageError Create) = ''create failed''"
| "message (ScraperError code msg url) = msg"

text \<open>
  \<open>ErrorLogger.logError(state, error, context)\<close>: the context of a failed record is
  its name and its hash; a failed source gives no context.
\<close>

record log_entry =
  log_state :: string
  log_error :: error
  log_context :: "(jsval \<times> jsval) option"

record world =
  collection :: "person list"
  error_log :: "log_entry list"
  validation_log :: "(string \<times> invalid_entry list) list"

text \<open>
  What the surroundings decide while one record is processed: the time \<open>new Date()\<close>
  reads, and which call to the storage, if any, throws (a lost connection, a document
  the schema rejects, a duplicate key).
\<close>

record env =
  now :: int
  fault :: "storage_call option"

section \<open>databaseService.ts\<close>

text \<open>\<open>findOne({ dataHash })\<close>: the position of the first document with that hash.\<close>

fun findOne :: "person list \<Rightarrow> jsval \<Rightarrow> nat option" where
  "findOne [] h = None"
| "findOne (d # ds) h = (if dataHash d = h then Some 0 else map_option Suc (findOne ds h))"

text \<open>
  \<open>create(record)\<close> under the schema (\<open>timestamps: true\<close>, \<open>status\<close> defaulting to
  \<open>'missing'\<close>): \<open>createdAt\<close> is the time of creation unless the record brings one, and
  \<open>updatedAt\<close> starts equal to it.
\<close>

definition new_document :: "int \<Rightarrow> person \<Rightarrow> person" where
  "new_document t r =
     r\<lparr>status := (if status r = JUndefined then JStr ''missing'' else status r),
       createdAt := (if truthy (createdAt r) then createdAt r else JDate (Some t)),
       updatedAt := (if truthy (createdAt r) then createdAt r else JDate (Some t))\<rparr>"

text \<open>\<open>updateOne({ _id }, { status: record.status, updatedAt: new Date() })\<close>.\<close>

definition refreshed :: "int \<Rightarrow> person \<Rightarrow> person \<Rightarrow> person" where
  "refreshed t r existing = existing\<lparr>status := status r, updatedAt := JDate (Some t)\<rparr>"

record batch_counts =
  inserted :: nat
  duplicates :: nat

text \<open>
  The body of the \<open>try\<close> for one record: the counters and the world as the body leaves
  them, and the call that threw, if one did. \<open>duplicates++\<close> comes before the update.
\<close>

definition try_record ::
  "env \<Rightarrow> person \<Rightarrow> batch_counts \<times> world \<Rightarrow> (batch_counts \<times> world) \<times> storage_call option" where
  "try_record e r cw =
     (if fault e = Some FindOne then (cw, Some FindOne)
      else case findOne (collection (snd cw)) (dataHash r) of
        Some i \<Rightarrow>
          (if \<not> strict_eq (status r) (status (collection (snd cw) ! i))
           then (if fault e = Some UpdateOne
                 then (((fst cw)\<lparr>duplicates := duplicates (fst cw) + 1\<rparr>, snd cw), Some UpdateOne)
                 else (((fst cw)\<lparr>duplicates := duplicates (fst cw) + 1\<rparr>,
                        (snd cw)\<lparr>collection := (collection (snd cw))
                           [i := refreshed (now e) r (collection (snd cw) ! i)]\<rparr>), None))
           else (((fst cw)\<lparr>duplicates := duplicates (fst cw) + 1\<rparr>, snd cw), None))
      | None \<Rightarrow>
          (if fault e = Some Create then (cw, Some Create)
           else (((fst cw)\<lparr>inserted := inserted (fst cw) + 1\<rparr>,
                  (snd cw)\<lparr>collection := collection (snd cw) @ [new_document (now e) r]\<rparr>),
                 None)))"

text \<open>The \<open>catch\<close>: the error is logged with the record's name and hash.\<close>

definition upsert_record ::
  "string \<Rightarrow> env \<Rightarrow> person \<Rightarrow> batch_counts \<times> world \<Rightarrow> batch_counts \<times> world" where
  "upsert_record st e r cw =
     (case try_record e r cw of
        (cw', None) \<Rightarrow> cw'
      | ((c, w), Some call) \<Rightarrow>
          (c, w\<lparr>error_log := error_log w @
                [\<lparr>log_state = st, log_error = StorageError call,
                  log_context = Some (name r, dataHash r)\<rparr>]\<rparr>))"

text \<open>The loop over the batch; record \<open>k\<close> of the batch meets the surroundings \<open>envs k\<close>.\<close>

fun insert_loop ::
  "string \<Rightarrow> (nat \<Rightarrow> env) \<Rightarrow> nat \<Rightarrow> person list \<Rightarrow> batch_counts \<times> world \<Rightarrow> batch_counts \<times> world" where
  "insert_loop st envs k [] cw = cw"
| "insert_loop st envs k (r # rs) cw = insert_loop st envs (Suc k) rs (upsert_record st (envs k) r cw)"

definition insertRecords ::
  "(nat \<Rightarrow> env) \<Rightarrow> person list \<Rightarrow> string \<Rightarrow> world \<Rightarrow> batch_counts \<times> world" where
  "insertRecords envs records st w = insert_loop st envs 0 records (\<lparr>inserted = 0, duplicates = 0\<rparr>, w)"

text \<open>The entries a run added to the error log, and those among them that an update threw.\<close>

definition logged_failures :: "world \<Rightarrow> world \<Rightarrow> log_entry list" where
  "logged_failures w w' = drop (length (error_log w)) (error_log w')"

definition failed_updates :: "world \<Rightarrow> world \<Rightarrow> log_entry list" where
  "failed_updates w w' = filter (\<lambda>l. log_error l = StorageError UpdateOne) (logged_failures w w')"

text \<open>
  What the scrapers put in \<open>dataHash\<close>: the hash of the record's own name, date and
  source URL.
\<close>

definition fingerprinted :: "host \<Rightarrow> person \<Rightarrow> bool" where
  "fingerprinted h r = (dataHash r = JStr (generateDataHash h r))"

text \<open>A record without its status and its two time stamps.\<close>

definition other_fields :: "person \<Rightarrow> person" where
  "other_fields p = p\<lparr>status := JUndefined, createdAt := JUndefined, updatedAt := JUndefined\<rparr>"

section \<open>httpClient.ts\<close>

definition RETRY_ATTEMPTS :: nat where
  "RETRY_ATTEMPTS = 3"

definition RETRY_DELAY_MS :: nat where
  "RETRY_DELAY_MS = 5000"

text \<open>
  What one \<open>axios.get\<close> comes back with: a response (status, status text, body), or an
  error with its message (no answer in 30 seconds, a refused connection, a status that
  axios rejects).
\<close>

datatype attempt = Response nat string string | Failure string

text \<open>
  \<open>HttpClient.fetch\<close>: the loop from \<open>attempt\<close> on, with the message of the last error and
  the delays slept so far. A response other than 200 throws inside the \<open>try\<close> and is
  caught like any other error.
\<close>

function fetch_from ::
  "(nat \<Rightarrow> attempt) \<Rightarrow> string \<Rightarrow> nat \<Rightarrow> string option \<Rightarrow> nat list \<Rightarrow> (error + string) \<times> nat list" where
  "fetch_from net url attempt lastError slept =
     (if attempt < RETRY_ATTEMPTS
      then (case net attempt of
              Response code statusText body \<Rightarrow>
                (if code = 200 then (Inr body, slept)
                 else fetch_from net url (attempt + 1)
                        (Some (''HTTP '' @ decimal code @ '': '' @ statusText))
                        (if attempt < RETRY_ATTEMPTS - 1
                         then slept @ [RETRY_DELAY_MS * (attempt + 1)] else slept))
            | Failure msg \<Rightarrow>
                fetch_from net url (attempt + 1) (Some msg)
                  (if attempt < RETRY_ATTEMPTS - 1
                   then slept @ [RETRY_DELAY_MS * (attempt + 1)] else slept))
      else (Inl (ScraperError ''FETCH_FAILED''
                  (''Failed to fetch after '' @ decimal RETRY_ATTEMPTS @ '' attempts: '' @
                   (case lastError of None \<Rightarrow> ''undefined'' | Some msg \<Rightarrow> msg)) url), slept))"
  by pat_completeness auto
termination
  by (relation "measure (\<lambda>(net, url, attempt, lastError, slept). RETRY_ATTEMPTS - attempt)") auto

declare fetch_from.simps [simp del]

definition fetch :: "(nat \<Rightarrow> attempt) \<Rightarrow> string \<Rightarrow> (error + string) \<times> nat list" where
  "fetch net url = fetch_from net url 0 None []"

text \<open>An attempt that ends the loop: a response with status 200.\<close>

fun succeeded :: "attempt \<Rightarrow> bool" where
  "succeeded (Response code statusText body) = (code = 200)"
| "succeeded (Failure msg) = False"

section \<open>The orchestrator\<close>

text \<open>
  A source: its name, its URL, what the network answers to its requests, what its
  scraper extracts from a page (the rows it cannot read are skipped inside), and what
  the storage meets while its batch is inserted.
\<close>

record source =
  source_name :: string
  source_url :: string
  network :: "nat \<Rightarrow> attempt"
  extract_rows :: "string \<Rightarrow> person list"
  storage :: "nat \<Rightarrow> env"

text \<open>\<open>scrape()\<close>: the page is fetched and read; an error of the fetch is thrown on.\<close>

definition scrape :: "source \<Rightarrow> error + person list" where
  "scrape s = (case fst (fetch (network s) (source_url s)) of
                 Inl e \<Rightarrow> Inl e
               | Inr html \<Rightarrow> Inr (extract_rows s html))"

record source_result = batch_counts +
  scraped :: nat
  n_valid :: nat
  n_invalid :: nat
  error_message :: "string option"

definition empty_result :: source_result where
  "empty_result = \<lparr>inserted = 0, duplicates = 0, scraped = 0, n_valid = 0, n_invalid = 0,
                    error_message = None\<rparr>"

text \<open>\<open>ErrorLogger.logValidationErrors\<close>, called when some record is invalid.\<close>

definition log_invalid :: "string \<Rightarrow> invalid_entry list \<Rightarrow> world \<Rightarrow> world" where
  "log_invalid st bad w =
     (if length bad > 0 then w\<lparr>validation_log := validation_log w @ [(st, bad)]\<rparr> else w)"

text \<open>
  One of the three blocks of \<open>runETLPipeline\<close>: scrape, transform, log the invalid
  records, insert the valid ones; the \<open>catch\<close> records the message of a thrown error in
  the result of the source and logs it.
\<close>

definition run_source :: "source \<Rightarrow> world \<Rightarrow> source_result \<times> world" where
  "run_source s w =
     (case scrape s of
        Inl e \<Rightarrow>
          (empty_result\<lparr>error_message := Some (message e)\<rparr>,
           w\<lparr>error_log := error_log w @
               [\<lparr>log_state = source_name s, log_error = e, log_context = None\<rparr>]\<rparr>)
      | Inr records \<Rightarrow>
          (let vi = transform records;
               w1 = log_invalid (source_name s) (snd vi) w;
               dbResult = insertRecords (storage s) (fst vi) (source_name s) w1
           in (empty_result\<lparr>scraped := length records, n_valid := length (fst vi),
                 n_invalid := length (snd vi), inserted := inserted (fst dbResult),
                 duplicates := duplicates (fst dbResult)\<rparr>, snd dbResult)))"

text \<open>The three sources in turn: Maharashtra, Karnataka, Delhi.\<close>

definition runETLPipeline ::
  "source \<Rightarrow> source \<Rightarrow> source \<Rightarrow> world \<Rightarrow> (source_result \<times> source_result \<times> source_result) \<times> world" where
  "runETLPipeline maharashtra karnataka delhi w =
     (let m = run_source maharashtra w;
          k = run_source karnataka (snd m);
          d = run_source delhi (snd k)
      in ((fst m, fst k, fst d), snd d))"

text \<open>For comparison: two sources run in turn, with no third source before or between.\<close>

definition run_two :: "source \<Rightarrow> source \<Rightarrow> world \<Rightarrow> (source_result \<times> source_result) \<times> world" where
  "run_two a b w = ((fst (run_source a w), fst (run_source b (snd (run_source a w)))),
                    snd (run_source b (snd (run_source a w))))"

section \<open>The analytics routes\<close>

subsection \<open>Operators of the aggregation and of the response\<close>

text \<open>\<open>$divide\<close> fails the whole aggregation when the divisor is zero.\<close>

definition mongo_divide :: "rat \<Rightarrow> rat \<Rightarrow> rat option" where
  "mongo_divide a b = (if b = 0 then None else Some (a / b))"

text \<open>\<open>$round\<close> to \<open>d\<close> decimal places; a value halfway goes to the even digit.\<close>

definition half_even :: "rat \<Rightarrow> int" where
  "half_even y =
     (if y - of_int \<lfloor>y\<rfloor> < 1 / 2 then \<lfloor>y\<rfloor>
      else if y - of_int \<lfloor>y\<rfloor> > 1 / 2 then \<lfloor>y\<rfloor> + 1
      else if even \<lfloor>y\<rfloor> then \<lfloor>y\<rfloor> else \<lfloor>y\<rfloor> + 1)"

definition mongo_round :: "rat \<Rightarrow> nat \<Rightarrow> rat" where
  "mongo_round x d = of_int (half_even (x * 10 ^ d)) / 10 ^ d"

text \<open>\<open>$avg\<close>: the mean of the numeric values, \<open>null\<close> when there is none.\<close>

definition mongo_avg :: "rat list \<Rightarrow> rat option" where
  "mongo_avg xs = (if xs = [] then None else Some (sum_list xs / of_nat (length xs)))"

text \<open>
  The ages a group averages: a stored age is a finite number (the schema's \<open>min\<close> and
  \<open>max\<close> reject the others), and a document without one is left out.
\<close>

fun numeric_age :: "person \<Rightarrow> rat list" where
  "numeric_age d = (case age d of JNum (Fin a) \<Rightarrow> [of_int a] | _ \<Rightarrow> [])"

definition ages :: "person list \<Rightarrow> rat list" where
  "ages docs = concat (map numeric_age docs)"

text \<open>\<open>{ $sum: { $cond: [{ $eq: ['$status', s] }, 1, 0] } }\<close>.\<close>

definition count_status :: "string \<Rightarrow> person list \<Rightarrow> nat" where
  "count_status s docs = length (filter (\<lambda>d. status d = JStr s) docs)"

text \<open>\<open>lastSeenDate: { $gte: cutoff }\<close>: only a date is compared with a date.\<close>

fun on_or_after :: "int \<Rightarrow> jsval \<Rightarrow> bool" where
  "on_or_after cutoff (JDate (Some t)) = (cutoff \<le> t)"
| "on_or_after cutoff _ = False"

text \<open>\<open>new Date(Date.now() - days * 24 * 60 * 60 * 1000)\<close>.\<close>

definition days_ago :: "int \<Rightarrow> int \<Rightarrow> int" where
  "days_ago t days = t - days * 24 * 60 * 60 * 1000"

fun time_value :: "jsval \<Rightarrow> int list" where
  "time_value (JDate (Some t)) = [t]"
| "time_value _ = []"

text \<open>
  The binary64 numbers of the engine. \<open>exponent2 x\<close> is the exponent of the power of
  two at or below a positive \<open>x\<close>: the number of binary digits of its integer part, less
  one, or, below 1, minus the number of doublings that reach 1.
\<close>

fun bit_length :: "nat \<Rightarrow> nat" where
  "bit_length n = (if n = 0 then 0 else Suc (bit_length (n div 2)))"

declare bit_length.simps [simp del]

definition exponent2 :: "rat \<Rightarrow> int" where
  "exponent2 x =
     (if 1 \<le> x then int (bit_length (nat \<lfloor>x\<rfloor>)) - 1
      else - int (bit_length (nat (\<lceil>1 / x\<rceil> - 1))))"

text \<open>\<open>x\<close> times \<open>2^k\<close>, for an integer \<open>k\<close>.\<close>

definition scale2 :: "rat \<Rightarrow> int \<Rightarrow> rat" where
  "scale2 x k = (if 0 \<le> k then x * 2 ^ nat k else x / 2 ^ nat (- k))"

text \<open>
  The spacing of the binary64 numbers around a positive \<open>x\<close> is \<open>2\<close> to the power
  \<open>ulp_exponent x\<close>: 53 significant bits, and no finer than \<open>2^-1074\<close>. Rounding goes to
  the nearest multiple of the spacing, to the even one of two; a result of \<open>2^1024\<close> or
  more is infinite.
\<close>

definition ulp_exponent :: "rat \<Rightarrow> int" where
  "ulp_exponent x = max (exponent2 x) (- 1022) - 52"

definition round64 :: "rat \<Rightarrow> rat" where
  "round64 x = scale2 (of_int (half_even (scale2 x (- ulp_exponent x)))) (ulp_exponent x)"

definition binary64 :: "rat \<Rightarrow> rat jsnum" where
  "binary64 x =
     (if x = 0 then Fin 0
      else if 0 < x then (if round64 x < 2 ^ 1024 then Fin (round64 x) else PosInf)
      else (if round64 (- x) < 2 ^ 1024 then Fin (- round64 (- x)) else NegInf))"

text \<open>
  Division and multiplication of JavaScript numbers: the exact result, rounded to
  binary64. (The operands here are counts and the constant 100, binary64 numbers
  themselves.)
\<close>

definition js_divide :: "rat \<Rightarrow> rat \<Rightarrow> rat jsnum" where
  "js_divide a b =
     (if b = 0 then (if a = 0 then NaN else if a > 0 then PosInf else NegInf)
      else binary64 (a / b))"

fun js_times :: "rat jsnum \<Rightarrow> rat \<Rightarrow> rat jsnum" where
  "js_times (Fin a) c = binary64 (a * c)"
| "js_times NaN c = NaN"
| "js_times PosInf c = (if c > 0 then PosInf else if c < 0 then NegInf else NaN)"
| "js_times NegInf c = (if c > 0 then NegInf else if c < 0 then PosInf else NaN)"

text \<open>
  \<open>x.toFixed(d)\<close> for \<open>x\<close> below \<open>10^21\<close>: the integer \<open>n\<close> with \<open>n / 10^d\<close> nearest to
  the exact value of \<open>x\<close>, the larger one of two, printed with \<open>d\<close> digits after the
  point.
\<close>

definition fixed_digits :: "nat \<Rightarrow> rat \<Rightarrow> string" where
  "fixed_digits d x =
     decimal (nat (\<lfloor>x * 10 ^ d + 1 / 2\<rfloor> div 10 ^ d)) @
     (if d = 0 then [] else ''.'' @ padded d (nat (\<lfloor>x * 10 ^ d + 1 / 2\<rfloor> mod 10 ^ d)))"

fun toFixed :: "rat jsnum \<Rightarrow> nat \<Rightarrow> string" where
  "toFixed NaN d = ''NaN''"
| "toFixed PosInf d = ''Infinity''"
| "toFixed NegInf d = ''-Infinity''"
| "toFixed (Fin x) d = (if x < 0 then ''-'' @ fixed_digits d (- x) else fixed_digits d x)"

datatype api_error = DivideByZero | TypeError

subsection \<open>GET /api/analytics/hotspots\<close>

text \<open>Stage 1, \<open>$match\<close>: the missing persons last seen in the last 90 days.\<close>

definition hotspot_match :: "int \<Rightarrow> person \<Rightarrow> bool" where
  "hotspot_match t d = (status d = JStr ''missing'' \<and> on_or_after (days_ago t 90) (lastSeenDate d))"

record tally =
  missingCount :: nat
  foundCount :: nat

record hotspot = tally +
  state :: jsval
  averageAge :: "rat option"
  latestDate :: "int option"
  riskScore :: rat
  genderDistribution :: "jsval list"

text \<open>
  Stage 2, \<open>$group\<close>, for the documents of one state: \<open>missingCount\<close> counts every
  document of the group, \<open>foundCount\<close> those whose status is \<open>'found'\<close>.
\<close>

definition hotspot_tally :: "person list \<Rightarrow> tally" where
  "hotspot_tally docs = \<lparr>missingCount = length docs, foundCount = count_status ''found'' docs\<rparr>"

text \<open>\<open>$max\<close> of the dates of a group: no value for an empty list.\<close>

definition max_time :: "int list \<Rightarrow> int option" where
  "max_time ts = (case ts of [] \<Rightarrow> None | t # r \<Rightarrow> Some (fold max r t))"

text \<open>
  Stage 3, \<open>$project\<close>: the risk score is \<open>missingCount / (missingCount + foundCount + 1)\<close>
  times 100. (The two centroid fields of the projection are left out.)
\<close>

definition risk :: "tally \<Rightarrow> rat option" where
  "risk g =
     map_option (\<lambda>q. q * 100)
       (mongo_divide (of_nat (missingCount g)) (of_nat (missingCount g + foundCount g + 1)))"

definition hotspot_of :: "jsval \<Rightarrow> person list \<Rightarrow> hotspot option" where
  "hotspot_of k docs =
     map_option
       (\<lambda>r. \<lparr>missingCount = missingCount (hotspot_tally docs),
              foundCount = foundCount (hotspot_tally docs),
              state = k,
              averageAge = map_option (\<lambda>a. mongo_round a 1) (mongo_avg (ages docs)),
              latestDate = max_time (concat (map (\<lambda>d. time_value (lastSeenDate d)) docs)),
              riskScore = r,
              genderDistribution = map gender docs\<rparr>)
       (risk (hotspot_tally docs))"

text \<open>
  The whole pipeline: match, group by \<open>sourceState\<close>, project, sort by \<open>missingCount\<close>
  descending, keep 20. (The storage does not fix the order of groups with equal counts;
  here they keep the order of the groups.)
\<close>

definition hotspots :: "int \<Rightarrow> person list \<Rightarrow> api_error + hotspot list" where
  "hotspots t docs =
     (let matched = filter (hotspot_match t) docs
      in case those (map (\<lambda>k. hotspot_of k (filter (\<lambda>d. sourceState d = k) matched))
                         (remdups (map sourceState matched))) of
           None \<Rightarrow> Inl DivideByZero
         | Some groups \<Rightarrow> Inr (take 20 (sort_key (\<lambda>g. - int (missingCount g)) groups)))"

subsection \<open>GET /api/analytics/trends\<close>

record trend = tally +
  year :: int
  month :: int
  totalCount :: nat
  avgAge :: "rat option"
  resolutionRate :: rat

text \<open>\<open>$year\<close> and \<open>$month\<close> of a date, in UTC.\<close>

fun year_month :: "jsval \<Rightarrow> int \<times> int" where
  "year_month (JDate (Some t)) =
     (fst (civil_from_days (t div msPerDay)), fst (snd (civil_from_days (t div msPerDay))))"
| "year_month _ = (0, 0)"

definition trend_tally :: "person list \<Rightarrow> tally" where
  "trend_tally docs =
     \<lparr>missingCount = count_status ''missing'' docs, foundCount = count_status ''found'' docs\<rparr>"

text \<open>
  \<open>resolutionRate\<close>: \<open>foundCount / (missingCount + foundCount + 1)\<close> times 100, rounded to
  two decimal places. (The \<open>date\<close> field of the projection, the first day of the
  month, is left out.)
\<close>

definition resolution :: "tally \<Rightarrow> rat option" where
  "resolution g =
     map_option (\<lambda>q. mongo_round (q * 100) 2)
       (mongo_divide (of_nat (foundCount g)) (of_nat (missingCount g + foundCount g + 1)))"

definition trend_of :: "int \<times> int \<Rightarrow> person list \<Rightarrow> trend option" where
  "trend_of k docs =
     map_option
       (\<lambda>r. \<lparr>missingCount = missingCount (trend_tally docs),
              foundCount = foundCount (trend_tally docs),
              year = fst k, month = snd k,
              totalCount = length docs,
              avgAge = map_option (\<lambda>a. mongo_round a 1) (mongo_avg (ages docs)),
              resolutionRate = r\<rparr>)
       (resolution (trend_tally docs))"

definition trends :: "int \<Rightarrow> person list \<Rightarrow> api_error + trend list" where
  "trends t docs =
     (let matched = filter (\<lambda>d. on_or_after (days_ago t 365) (lastSeenDate d)) docs
      in case those (map (\<lambda>k. trend_of k (filter (\<lambda>d. year_month (lastSeenDate d) = k) matched))
                         (remdups (map (\<lambda>d. year_month (lastSeenDate d)) matched))) of
           None \<Rightarrow> Inl DivideByZero
         | Some groups \<Rightarrow> Inr (sort_key year (sort_key month groups)))"

subsection \<open>GET /api/analytics/statistics: the totals\<close>

record totals =
  total :: nat
  missing :: nat
  found :: nat
  totals_resolutionRate :: string
  totals_averageAge :: string

text \<open>
  The \<open>totals\<close> facet groups the whole collection into one document; an empty collection
  gives none, and reading a field of \<open>undefined\<close> throws, as \<open>toFixed\<close> on the \<open>null\<close>
  average of a collection without ages does. The rate is
  \<open>((foundCount / (missingCount + foundCount)) * 100).toFixed(2)\<close>, computed by the
  handler; the average reaches the handler as a binary64 number. (The three other
  facets of the response are left out.)
\<close>

definition statistics_totals :: "person list \<Rightarrow> api_error + totals" where
  "statistics_totals docs =
     (if docs = [] then Inl TypeError
      else case mongo_avg (ages docs) of
        None \<Rightarrow> Inl TypeError
      | Some a \<Rightarrow>
          Inr \<lparr>total = length docs,
               missing = count_status ''missing'' docs,
               found = count_status ''found'' docs,
               totals_resolutionRate =
                 toFixed (js_times (js_divide (of_nat (count_status ''found'' docs))
                            (of_nat (count_status ''missing'' docs + count_status ''found'' docs))) 100) 2,
               totals_averageAge = toFixed (binary64 a) 1\<rparr>)"

section \<open>Values for the worked examples\<close>

text \<open>
  Two hosts (their parser reads nothing), the record of the scenario \<open>Asha Rao\<close> as a
  scraper on the first host builds it from \<open>15/02/2026\<close>, and the same record reported
  as found.
\<close>

definition reads_nothing :: "string \<Rightarrow> int option" where
  "reads_nothing s = None"

definition ist :: host where
  "ist = \<lparr>tz_offset = 330, tz_name = ''India Standard Time'', native_parse = reads_nothing\<rparr>"

definition utc :: host where
  "utc = \<lparr>tz_offset = 0, tz_name = ''Coordinated Universal Time'', native_parse = reads_nothing\<rparr>"

definition asha :: person where
  "asha = \<lparr>name = JStr ''Asha Rao'', age = JNum (Fin 29), gender = JStr ''female'',
     lastSeenDate = JDate (Some 1771093800000), lastKnownLocation = JStr ''Pune'',
     geolocation = JPoint (757139 / 10000) (197515 / 10000), status = JStr ''missing'',
     description = JUndefined, photoUrl = JUndefined, contactName = JUndefined,
     contactPhone = JUndefined, sourceURL = JStr ''https://x.gov.in'',
     sourceState = JStr ''Maharashtra'', createdAt = JUndefined, updatedAt = JUndefined,
     dataHash = JStr ''4c34ef86e543b57f87d595c642720ab23337eba99e304c39be03684f285be9db''\<rparr>"

definition asha_found :: person where
  "asha_found = asha\<lparr>status := JStr ''found''\<rparr>"

text \<open>A second report of the same person, day and source, with other details.\<close>

definition asha_elsewhere :: person where
  "asha_elsewhere = asha\<lparr>age := JNum (Fin 31), gender := JStr ''other'',
                          lastKnownLocation := JStr ''Nagpur''\<rparr>"

definition empty_world :: world where
  "empty_world = \<lparr>collection = [], error_log = [], validation_log = []\<rparr>"

text \<open>A world that holds the record, stored at time 1771100000000.\<close>

definition world_with_asha :: world where
  "world_with_asha =
     \<lparr>collection = [new_document 1771100000000 asha], error_log = [], validation_log = []\<rparr>"

text \<open>Surroundings in which every call succeeds, and in which every update fails.\<close>

definition calm :: "nat \<Rightarrow> env" where
  "calm k = \<lparr>now = 1771200000000 + int k, fault = None\<rparr>"

definition updates_fail :: "nat \<Rightarrow> env" where
  "updates_fail k = \<lparr>now = 1771200000000 + int k, fault = Some UpdateOne\<rparr>"

text \<open>
  Three sources: one that never answers, one whose page holds the record of the
  scenario, and one whose page holds the same person as found and a candidate aged 200.
\<close>

definition always_down :: "nat \<Rightarrow> attempt" where
  "always_down k = Failure ''timeout of 30000ms exceeded''"

definition always_up :: "nat \<Rightarrow> attempt" where
  "always_up k = Response 200 ''OK'' ''<html></html>''"

definition no_rows :: "string \<Rightarrow> person list" where
  "no_rows html = []"

definition one_row :: "string \<Rightarrow> person list" where
  "one_row html = [asha]"

definition two_rows :: "string \<Rightarrow> person list" where
  "two_rows html = [asha_found, asha\<lparr>age := JNum (Fin 200)\<rparr>]"

definition maharashtra_down :: source where
  "maharashtra_down =
     \<lparr>source_name = ''Maharashtra'',
      source_url = ''https://avm.maharashtra.gov.in/PublicUtility/MissingPerson.aspx'',
      network = always_down, extract_rows = no_rows, storage = calm\<rparr>"

definition karnataka_up :: source where
  "karnataka_up =
     \<lparr>source_name = ''Karnataka'', source_url = ''https://www.sugamkbc.gov.in'',
      network = always_up, extract_rows = one_row, storage = calm\<rparr>"

definition delhi_up :: source where
  "delhi_up =
     \<lparr>source_name = ''Delhi'',
      source_url = ''https://zipnet.delhipolice.gov.in/victims/missingpersons/'',
      network = always_up, extract_rows = two_rows, storage = calm\<rparr>"

chapter \<open>Properties\<close>

section \<open>Rules for evaluation\<close>

lemma replicate_numeral: "replicate (numeral k) x = x # replicate (pred_numeral k) x"
  by (simp add: numeral_eq_Suc)

lemma decimal_0: "decimal 0 = ''0''"
  by (simp add: decimal.simps digit_char_def)

lemma decimal_1: "decimal (Suc 0) = ''1''"
  by (simp add: decimal.simps digit_char_def)

lemma decimal_numeral:
  "decimal (numeral k) =
     (if (numeral k :: nat) < 10 then [digit_char (numeral k)]
      else decimal (numeral k div 10) @ [digit_char (numeral k mod 10)])"
  by (rule decimal.simps)

lemma floor_rat_numerals: "\<lfloor>(numeral a / numeral b :: rat)\<rfloor> = numeral a div numeral b"
  by (metis floor_divide_of_int_eq of_int_numeral)

lemma ceiling_rat_numerals:
  "\<lceil>(numeral a / numeral b :: rat)\<rceil> = - ((- numeral a) div numeral b)"
proof -
  have "\<lfloor>- (numeral a / numeral b :: rat)\<rfloor> =
        \<lfloor>(of_int (- numeral a) / of_int (numeral b) :: rat)\<rfloor>"
    by simp
  also have "\<dots> = (- numeral a) div numeral b"
    by (rule floor_divide_of_int_eq)
  finally show ?thesis by (simp add: ceiling_def)
qed

lemma bit_length_0: "bit_length 0 = 0"
  by (simp add: bit_length.simps)

lemma bit_length_1: "bit_length (Suc 0) = 1"
  by (simp add: bit_length.simps)

lemma bit_length_numeral: "bit_length (numeral k) = Suc (bit_length (numeral k div 2))"
  by (subst bit_length.simps) simp

lemmas binary64_defs = binary64_def round64_def ulp_exponent_def scale2_def exponent2_def
  half_even_def bit_length_0 bit_length_1 bit_length_numeral ceiling_rat_numerals
  floor_rat_numerals

lemmas digit_defs = decimal_0 decimal_1 decimal_numeral padded_def digit_char_def replicate_numeral

lemmas civil_defs = civil_from_days_def civil_of_doe_def civil_of_yoe_def civil_of_doy_def
  civil_of_mp_def days_from_civil_def days_of_shifted_def doe_of_def

lemmas string_defs = date_toString_def local_string_def zone_string_def time_string_def
  day_string_def year_string_def digit_defs weekday_names_def month_names_def msPerDay_def

section \<open>The fingerprint\<close>

subsection \<open>The digest of three strings\<close>

lemmas sha_defs = compress_def H256_def K256_def rotr_def choose32_def majority32_def
  bsig0_def bsig1_def ssig0_def ssig1_def add32_def

text \<open>The test vector of the standard.\<close>

lemma blocks_abc:
  "blocks (be32 (sha_pad (utf8 ''abc''))) =
     [[1633837952, 0, 0, 0, 0, 0, 0, 0, 0, 0, 0, 0, 0, 0, 0, 24]]"
  by (simp add: sha_pad_def utf8_def replicate_numeral)

lemma compress_abc_1:
  "compress
      H256
      [1633837952, 0, 0, 0, 0, 0, 0, 0, 0, 0, 0, 0, 0, 0, 0, 24] =
     [3128432319, 2399260650, 1094795486, 1571693091, 2953011619, 2518121116, 3021012833,
      4060091821]"
  by (simp add: sha_defs)

lemma hex_abc:
  "concat (map hex32
     [3128432319, 2399260650, 1094795486, 1571693091, 2953011619, 2518121116, 3021012833,
      4060091821]) =
   ''ba7816bf8f01cfea414140de5dae2223b00361a396177a9cb410ff61f20015ad''"
  by (simp add: hex32_def hex_char_def)

lemma sha256_abc:
  "sha256_hex (utf8 ''abc'') =
   ''ba7816bf8f01cfea414140de5dae2223b00361a396177a9cb410ff61f20015ad''"
  unfolding sha256_hex_def blocks_abc
  by (simp only: foldl.simps compress_abc_1 hex_abc)

text \<open>The identifier of the example record on each of the two hosts, and its digest.\<close>

lemma blocks_ist:
  "blocks (be32 (sha_pad (utf8 ''Asha Rao-Sun Feb 15 2026 00:00:00 GMT+0530 (India Standard Time)-https://x.gov.in''))) =
     [[1098082401, 542269807, 760444270, 541484386, 540095776, 842019382, 540028986,
       808466992, 807421773, 1412116533, 858791976, 1231971433, 1629508468, 1634624609,
       1919164500, 1768777001],
      [761820276, 1886599727, 796405351, 1870016105, 1853882368, 0, 0, 0, 0, 0, 0, 0, 0, 0,
       0, 648]]"
  by (simp add: sha_pad_def utf8_def replicate_numeral)

lemma compress_ist_1:
  "compress
      H256
      [1098082401, 542269807, 760444270, 541484386, 540095776, 842019382, 540028986,
       808466992, 807421773, 1412116533, 858791976, 1231971433, 1629508468, 1634624609,
       1919164500, 1768777001] =
     [88389153, 124834498, 852606074, 1386190431, 503319621, 1201820195, 253969235,
      1253365588]"
  by (simp add: sha_defs)

lemma compress_ist_2:
  "compress
      [88389153, 124834498, 852606074, 1386190431, 503319621, 1201820195, 253969235,
       1253365588]
      [761820276, 1886599727, 796405351, 1870016105, 1853882368, 0, 0, 0, 0, 0, 0, 0, 0, 0,
       0, 648] =
     [1278537606, 3846419839, 2278921670, 1114770098, 859302825, 2653965369, 3187894351,
      677112283]"
  by (simp add: sha_defs)

lemma hex_ist:
  "concat (map hex32
     [1278537606, 3846419839, 2278921670, 1114770098, 859302825, 2653965369, 3187894351,
      677112283]) =
   ''4c34ef86e543b57f87d595c642720ab23337eba99e304c39be03684f285be9db''"
  by (simp add: hex32_def hex_char_def)

lemma sha256_ist:
  "sha256_hex (utf8 ''Asha Rao-Sun Feb 15 2026 00:00:00 GMT+0530 (India Standard Time)-https://x.gov.in'') =
   ''4c34ef86e543b57f87d595c642720ab23337eba99e304c39be03684f285be9db''"
  unfolding sha256_hex_def blocks_ist
  by (simp only: foldl.simps compress_ist_1 compress_ist_2 hex_ist)

lemma blocks_utc:
  "blocks (be32 (sha_pad (utf8 ''Asha Rao-Sat Feb 14 2026 18:30:00 GMT+0000 (Coordinated Universal Time)-https://x.gov.in''))) =
     [[1098082401, 542269807, 760439156, 541484386, 540095520, 842019382, 540096570,
       858798640, 807421773, 1412116528, 808460328, 1131376498, 1684631137, 1952801824,
       1433299318, 1701999457],
      [1814058089, 1835346221, 1752462448, 1933193007, 2016307055, 1982753134, 2147483648,
       0, 0, 0, 0, 0, 0, 0, 0, 704]]"
  by (simp add: sha_pad_def utf8_def replicate_numeral)

lemma compress_utc_1:
  "compress
      H256
      [1098082401, 542269807, 760439156, 541484386, 540095520, 842019382, 540096570,
       858798640, 807421773, 1412116528, 808460328, 1131376498, 1684631137, 1952801824,
       1433299318, 1701999457] =
     [1539666003, 182007960, 2626792230, 516626373, 1271108204, 2244223830, 4195199885,
      593899278]"
  by (simp add: sha_defs)

lemma compress_utc_2:
  "compress
      [1539666003, 182007960, 2626792230, 516626373, 1271108204, 2244223830, 4195199885,
       593899278]
      [1814058089, 1835346221, 1752462448, 1933193007, 2016307055, 1982753134, 2147483648,
       0, 0, 0, 0, 0, 0, 0, 0, 704] =
     [1464322149, 866249045, 3690639623, 3327609701, 2353632926, 2245156093, 818001350,
      593604054]"
  by (simp add: sha_defs)

lemma hex_utc:
  "concat (map hex32
     [1464322149, 866249045, 3690639623, 3327609701, 2353632926, 2245156093, 818001350,
      593604054]) =
   ''5747c86533a1e955dbfab107c6574b658c49969e85d25cfd30c1b5c62361add6''"
  by (simp add: hex32_def hex_char_def)

lemma sha256_utc:
  "sha256_hex (utf8 ''Asha Rao-Sat Feb 14 2026 18:30:00 GMT+0000 (Coordinated Universal Time)-https://x.gov.in'') =
   ''5747c86533a1e955dbfab107c6574b658c49969e85d25cfd30c1b5c62361add6''"
  unfolding sha256_hex_def blocks_utc
  by (simp only: foldl.simps compress_utc_1 compress_utc_2 hex_utc)
subsection \<open>The hash of the example record on two hosts\<close>

lemma identifier_ist:
  "identifierString ist asha =
   ''Asha Rao-Sun Feb 15 2026 00:00:00 GMT+0530 (India Standard Time)-https://x.gov.in''"
  by (simp add: identifierString_def asha_def ist_def string_defs civil_defs)

lemma identifier_utc:
  "identifierString utc asha =
   ''Asha Rao-Sat Feb 14 2026 18:30:00 GMT+0000 (Coordinated Universal Time)-https://x.gov.in''"
  by (simp add: identifierString_def asha_def utc_def string_defs civil_defs)

lemma hash_ist:
  "generateDataHash ist asha = ''4c34ef86e543b57f87d595c642720ab23337eba99e304c39be03684f285be9db''"
  by (simp only: generateDataHash_def identifier_ist sha256_ist)

lemma hash_utc:
  "generateDataHash utc asha = ''5747c86533a1e955dbfab107c6574b658c49969e85d25cfd30c1b5c62361add6''"
  by (simp only: generateDataHash_def identifier_utc sha256_utc)

lemma asha_fingerprinted: "fingerprinted ist asha"
  by (simp add: fingerprinted_def hash_ist) (simp add: asha_def)

text \<open>
  Claim C2 at the failing input. The same record, with the same instant as its date of
  last sight, is hashed to two different values by a process in India Standard Time
  and a process in UTC: the template literal prints the date in the local time of the
  host, so the hash is not a function of the three fields alone.
\<close>

theorem generateDataHash_depends_on_host:
  "generateDataHash ist asha = ''4c34ef86e543b57f87d595c642720ab23337eba99e304c39be03684f285be9db'' \<and>
   generateDataHash utc asha = ''5747c86533a1e955dbfab107c6574b658c49969e85d25cfd30c1b5c62361add6'' \<and>
   generateDataHash ist asha \<noteq> generateDataHash utc asha"
  by (simp add: hash_ist hash_utc)

section \<open>The validator and the transformer\<close>

lemma valid_iff_no_errors:
  "valid (validateExtractedData d) \<longleftrightarrow> errors (validateExtractedData d) = []"
  by (cases d) (simp_all add: checked_def)

text \<open>The three rules of claim C4, as the code checks them.\<close>

lemma validator_rejects:
  assumes "age_rejected (age p) \<or> \<not> gender_listed (gender p) \<or> \<not> instanceof_Date (lastSeenDate p)"
  shows "\<not> valid (validateExtractedData (Object p)) \<and> errors (validateExtractedData (Object p)) \<noteq> []"
  using assms by (auto simp: checked_def field_errors_def)

lemma age_rejected_finite: "age_rejected (JNum (Fin a)) \<longleftrightarrow> a < 0 \<or> 150 < a"
  by simp

lemma age_rejected_not_number: "typeof v \<noteq> ''number'' \<Longrightarrow> age_rejected v"
  by (cases v) simp_all

lemma not_a_Date_rejected: "typeof v \<noteq> ''object'' \<or> v = JNull \<Longrightarrow> \<not> instanceof_Date v"
  by (cases v) auto

text \<open>The transformer sends every record to exactly one of its two arrays.\<close>

lemma transform_loop_partition:
  "transform_loop rs (ok, bad) =
     (ok @ filter (\<lambda>r. valid (validateExtractedData (Object r))) rs,
      bad @ map (\<lambda>r. (r, errors (validateExtractedData (Object r))))
                (filter (\<lambda>r. \<not> valid (validateExtractedData (Object r))) rs))"
  by (induction rs arbitrary: ok bad) auto

lemma transform_partition:
  "transform rs =
     (filter (\<lambda>r. valid (validateExtractedData (Object r))) rs,
      map (\<lambda>r. (r, errors (validateExtractedData (Object r))))
          (filter (\<lambda>r. \<not> valid (validateExtractedData (Object r))) rs))"
  by (simp add: transform_def transform_loop_partition)

lemma rejected_record_never_valid:
  assumes "age_rejected (age r) \<or> \<not> gender_listed (gender r) \<or> \<not> instanceof_Date (lastSeenDate r)"
    and "r \<in> set rs"
  shows "r \<notin> set (fst (transform rs)) \<and>
         (r, errors (validateExtractedData (Object r))) \<in> set (snd (transform rs))"
  using assms validator_rejects [of r] by (auto simp: transform_partition)

text \<open>
  Claim C4 at the failing input. A record whose \<open>lastSeenDate\<close> is an \<open>Invalid Date\<close>
  is an instance of \<open>Date\<close>, and a record whose age is \<open>NaN\<close> has an age of type
  \<open>number\<close> that is neither below 0 nor above 150: the validator returns
  \<open>valid: true\<close> with no error for both, and the transformer passes them on as valid.
\<close>

theorem validator_accepts_invalid_date:
  "validateExtractedData (Object (asha\<lparr>lastSeenDate := JDate None\<rparr>)) =
     \<lparr>valid = True, errors = []\<rparr> \<and>
   validateExtractedData (Object (asha\<lparr>age := JNum NaN\<rparr>)) = \<lparr>valid = True, errors = []\<rparr> \<and>
   transform [asha\<lparr>lastSeenDate := JDate None\<rparr>, asha\<lparr>age := JNum NaN\<rparr>] =
     ([asha\<lparr>lastSeenDate := JDate None\<rparr>, asha\<lparr>age := JNum NaN\<rparr>], [])"
  by (simp add: transform_def checked_def field_errors_def asha_def)

section \<open>The date parser\<close>

subsection \<open>Classes of code units\<close>

lemma digit_class:
  "is_digit c \<Longrightarrow> \<not> is_space c \<and> \<not> is_letter c \<and> c \<noteq> CHR ''-'' \<and> c \<noteq> CHR ''/''"
  by (auto simp: is_digit_def is_space_def is_letter_def)

lemma letter_class:
  "is_letter c \<Longrightarrow> \<not> is_space c \<and> \<not> is_digit c \<and> c \<noteq> CHR ''-'' \<and> c \<noteq> CHR ''/''"
  by (auto simp: is_digit_def is_space_def is_letter_def)

lemma separator_class:
  "c = CHR ''-'' \<or> c = CHR ''/'' \<Longrightarrow> \<not> is_space c \<and> \<not> is_digit c"
  by (auto simp: is_digit_def is_space_def)

lemma space_class:
  "is_space (CHR '' '') \<and> \<not> is_digit (CHR '' '') \<and> \<not> is_letter (CHR '' '')"
  by (simp add: is_digit_def is_space_def is_letter_def)

subsection \<open>The cases of the parser\<close>

lemma parse_numeric:
  "leftmost numeric_at (normalizeText s) = Some (d, m, y) \<Longrightarrow>
   parseIndianDate h s =
     new_Date_ymd h (parseInt_digits y) (parseInt_digits m - 1) (parseInt_digits d)"
  by (simp add: parseIndianDate_def)

lemma parse_fallback:
  "leftmost numeric_at (normalizeText s) = None \<Longrightarrow>
   parseIndianDate h s = date_or_null (new_Date_string h (engine_input s))"
  by (simp add: parseIndianDate_def engine_input_def split: option.splits)

lemma date_or_null_never_invalid: "\<not> invalid_date (date_or_null v)"
  by (simp add: date_or_null_def)

lemma parse_never_invalid: "\<not> invalid_date (parseIndianDate h s)"
proof (cases "leftmost numeric_at (normalizeText s)")
  case None
  then show ?thesis by (simp add: parse_fallback date_or_null_never_invalid)
next
  case (Some g)
  then show ?thesis
    by (cases g) (simp add: parse_numeric new_Date_ymd_def)
qed

lemma parse_null_iff:
  "parseIndianDate h s = JNull \<longleftrightarrow>
     leftmost numeric_at (normalizeText s) = None \<and> native_parse h (engine_input s) = None"
proof (cases "leftmost numeric_at (normalizeText s)")
  case None
  then show ?thesis
    by (cases "native_parse h (engine_input s)")
       (simp_all add: parse_fallback date_or_null_def new_Date_string_def)
next
  case (Some g)
  then show ?thesis
    by (cases g) (simp add: parse_numeric new_Date_ymd_def)
qed

subsection \<open>The three shapes\<close>

lemma numeric_shape:
  assumes "is_digit d1" "is_digit d2" "is_digit m1" "is_digit m2"
    "is_digit y1" "is_digit y2" "is_digit y3" "is_digit y4"
    "c = CHR ''-'' \<or> c = CHR ''/''" "c' = CHR ''-'' \<or> c' = CHR ''/''"
  shows "leftmost numeric_at (normalizeText [d1, d2, c, m1, m2, c', y1, y2, y3, y4]) =
           Some ([d1, d2], [m1, m2], [y1, y2, y3, y4])"
proof -
  have ns: "\<not> is_space d1" "\<not> is_space d2" "\<not> is_space m1" "\<not> is_space m2"
    "\<not> is_space y1" "\<not> is_space y2" "\<not> is_space y3" "\<not> is_space y4"
    "\<not> is_space c" "\<not> is_space c'" "\<not> is_digit c" "\<not> is_digit c'"
    using assms digit_class separator_class by blast+
  have "normalizeText [d1, d2, c, m1, m2, c', y1, y2, y3, y4] = [d1, d2, c, m1, m2, c', y1, y2, y3, y4]"
    using ns by (simp add: normalizeText_def trim_def)
  moreover have "numeric_at [d1, d2, c, m1, m2, c', y1, y2, y3, y4] =
                   Some ([d1, d2], [m1, m2], [y1, y2, y3, y4])"
    using assms ns by (auto simp: numeric_at_def digits12_def)
  ultimately show ?thesis by simp
qed

lemma one_or_more_greedy:
  assumes "w \<noteq> []" "\<forall>c \<in> set w. P c" "r = [] \<or> \<not> P (hd r)"
  shows "\<exists>rest. one_or_more P (w @ r) = (w, r) # rest"
  using assms
proof (induction w)
  case Nil
  then show ?case by simp
next
  case (Cons a w)
  show ?case
  proof (cases "w = []")
    case True
    have "one_or_more P r = []"
      using Cons.prems(3) by (cases r) auto
    then show ?thesis using True Cons.prems by simp
  next
    case False
    then obtain rest where "one_or_more P (w @ r) = (w, r) # rest"
      using Cons by auto
    then show ?thesis using Cons.prems by simp
  qed
qed

lemma one_or_more_split: "(p, r) \<in> set (one_or_more P s) \<Longrightarrow> s = p @ r"
  by (induction s arbitrary: p r) (auto split: if_splits)

lemma collapse_no_space:
  "w \<noteq> [] \<Longrightarrow> \<forall>c \<in> set w. \<not> is_space c \<Longrightarrow>
   collapse_spaces b (w @ r) = w @ collapse_spaces False r"
proof (induction w arbitrary: b)
  case Nil
  then show ?case by simp
next
  case (Cons a w)
  then show ?case by (cases "w = []") auto
qed

lemma leftmost_None: "(\<And>t. set t \<subseteq> set s \<Longrightarrow> f t = None) \<Longrightarrow> leftmost f s = None"
proof (induction s)
  case Nil
  then show ?case by simp
next
  case (Cons c s)
  have "f (c # s) = None" using Cons.prems by simp
  moreover have "leftmost f s = None"
    using Cons.prems by (intro Cons.IH) auto
  ultimately show ?case by simp
qed

lemma concat_no_separator:
  "(\<And>p r. (p, r) \<in> set xs \<Longrightarrow> separator r = []) \<Longrightarrow>
   concat (map (\<lambda>(d, r1). concat (map (g d) (separator r1))) xs) = []"
proof (induction xs)
  case Nil
  then show ?case by simp
next
  case (Cons x xs)
  obtain p r where x: "x = (p, r)" by (cases x)
  have "separator r = []"
    using Cons.prems [of p r] x by simp
  moreover have "concat (map (\<lambda>(d, r1). concat (map (g d) (separator r1))) xs) = []"
    using Cons.prems by (intro Cons.IH) auto
  ultimately show ?case using x by simp
qed

lemma separator_needed:
  assumes "\<forall>c \<in> set s. c \<noteq> CHR ''-'' \<and> c \<noteq> CHR ''/''"
  shows "numeric_at s = None"
proof -
  have none: "separator r = []" if "(p, r) \<in> set (digits12 s)" for p r
  proof -
    have "s = p @ r"
      using that one_or_more_split by (auto simp: digits12_def)
    then show ?thesis using assms by (cases r) auto
  qed
  have empty: "[(d, m, y). (d, r1) \<leftarrow> digits12 s, r2 \<leftarrow> separator r1,
                     (m, r3) \<leftarrow> digits12 r2, r4 \<leftarrow> separator r3, y \<leftarrow> digits4 r4] = []"
    by (rule concat_no_separator) (rule none)
  show ?thesis
    unfolding numeric_at_def empty by simp
qed

lemma no_separator_no_numeric:
  assumes "\<forall>c \<in> set s. c \<noteq> CHR ''-'' \<and> c \<noteq> CHR ''/''"
  shows "leftmost numeric_at s = None"
  using assms by (intro leftmost_None separator_needed) auto

lemma month_name_shape:
  assumes d: "is_digit d1" "is_digit d2" "is_digit y1" "is_digit y2" "is_digit y3" "is_digit y4"
    and w: "w \<noteq> []" "\<forall>c \<in> set w. is_letter c"
  shows "parseIndianDate h ([d1, d2] @ '' '' @ w @ '' '' @ [y1, y2, y3, y4]) =
           date_or_null (new_Date_string h (w @ '' '' @ [d1, d2] @ '', '' @ [y1, y2, y3, y4]))"
proof -
  let ?ys = "[y1, y2, y3, y4]"
  let ?s = "[d1, d2] @ '' '' @ w @ '' '' @ ?ys"
  have cls: "\<not> is_space d1" "\<not> is_space d2" "\<not> is_space y1" "\<not> is_space y2"
    "\<not> is_space y3" "\<not> is_space y4" "\<not> is_letter y1" "\<forall>c \<in> set w. \<not> is_space c" "\<forall>c \<in> set w. \<not> is_digit c"
    using d w digit_class letter_class by blast+
  have w0: "\<not> is_space (hd w)" "\<not> is_digit (hd w)"
    using w cls by (cases w; simp)+
  have norm: "normalizeText ?s = ?s"
    using cls space_class w(1) by (simp add: normalizeText_def trim_def collapse_no_space)
  have "\<forall>c \<in> set ?s. c \<noteq> CHR ''-'' \<and> c \<noteq> CHR ''/''"
    using d w digit_class letter_class by auto
  then have numeric: "leftmost numeric_at ?s = None"
    by (rule no_separator_no_numeric)
  obtain rest where letters: "one_or_more is_letter (w @ CHR '' '' # ?ys) = (w, CHR '' '' # ?ys) # rest"
    using one_or_more_greedy [of w is_letter "CHR '' '' # ?ys"] w space_class by auto
  have spaces: "one_or_more is_space (CHR '' '' # w @ CHR '' '' # ?ys) = [('' '', w @ CHR '' '' # ?ys)]"
    "one_or_more is_space (CHR '' '' # ?ys) = [('' '', ?ys)]"
    using space_class cls w0 w(1) by (cases w; simp)+
  have "month_name_at ?s = Some ([d1, d2], w, ?ys)"
    using d space_class spaces letters
    by (simp add: month_name_at_def digits12_def)
  then have "leftmost month_name_at ?s = Some ([d1, d2], w, ?ys)"
    by simp
  then show ?thesis
    using norm numeric by (simp add: parse_fallback engine_input_def)
qed

text \<open>Days and months out of range carry over into the following months and years.\<close>

lemma make_day_carries:
  "make_day y m (d + k) = make_day y m d + k \<and> make_day y (m + 12) d = make_day (y + 1) m d"
  by (simp add: make_day_def ac_simps)

lemmas regex_defs = numeric_at_def month_name_at_def digits12_def is_digit_def is_space_def
  is_letter_def normalizeText_def trim_def parseInt_digits_def

text \<open>
  Claim C5, as the code has it. Where the normalised text holds the numeric pattern,
  the result is the date of the three numbers, built without any check of their range,
  and never \<open>null\<close>; where it does not, the result is what the engine reads from the
  rearranged month-name match, or else from the whole text, and \<open>null\<close> when that is an
  invalid date. So \<open>null\<close> comes back exactly when the numeric pattern is absent and the
  engine reads no date; an invalid date never comes back. The shapes \<open>DD/MM/YYYY\<close> and
  \<open>DD-MM-YYYY\<close> take the first branch, and \<open>DD MonthName YYYY\<close> hands
  \<open>MonthName DD, YYYY\<close> to the engine.
\<close>

theorem parseIndianDate_branches:
  "(leftmost numeric_at (normalizeText s) = Some (d, m, y) \<longrightarrow>
      parseIndianDate h s =
        new_Date_ymd h (parseInt_digits y) (parseInt_digits m - 1) (parseInt_digits d)) \<and>
   (leftmost numeric_at (normalizeText s) = None \<longrightarrow>
      parseIndianDate h s = date_or_null (new_Date_string h (engine_input s))) \<and>
   (parseIndianDate h s = JNull \<longleftrightarrow>
      leftmost numeric_at (normalizeText s) = None \<and> native_parse h (engine_input s) = None) \<and>
   \<not> invalid_date (parseIndianDate h s) \<and>
   (is_digit d1 \<and> is_digit d2 \<and> is_digit m1 \<and> is_digit m2 \<and>
    is_digit y1 \<and> is_digit y2 \<and> is_digit y3 \<and> is_digit y4 \<and>
    (c = CHR ''-'' \<or> c = CHR ''/'') \<and> (c' = CHR ''-'' \<or> c' = CHR ''/'') \<longrightarrow>
      parseIndianDate h [d1, d2, c, m1, m2, c', y1, y2, y3, y4] =
        new_Date_ymd h (parseInt_digits [y1, y2, y3, y4]) (parseInt_digits [m1, m2] - 1)
          (parseInt_digits [d1, d2])) \<and>
   (is_digit d1 \<and> is_digit d2 \<and> is_digit y1 \<and> is_digit y2 \<and> is_digit y3 \<and> is_digit y4 \<and>
    w \<noteq> [] \<and> (\<forall>c \<in> set w. is_letter c) \<longrightarrow>
      parseIndianDate h ([d1, d2] @ '' '' @ w @ '' '' @ [y1, y2, y3, y4]) =
        date_or_null (new_Date_string h (w @ '' '' @ [d1, d2] @ '', '' @ [y1, y2, y3, y4])))"
  using parse_numeric [of s d m y h] parse_fallback [of s h] parse_null_iff [of h s]
    parse_never_invalid [of h s]
    numeric_shape [of d1 d2 m1 m2 y1 y2 y3 y4 c c', THEN parse_numeric, of h]
    month_name_shape [of d1 d2 y1 y2 y3 y4 w h]
  by blast

text \<open>
  The date of the scenario, \<open>15/02/2026\<close>, read on the host in India: midnight of that
  day there, the date the example record carries. A text with no date in it gives
  \<open>null\<close> on a host whose engine reads nothing.
\<close>

theorem parseIndianDate_branches_witness:
  "leftmost numeric_at (normalizeText ''15/02/2026'') = Some (''15'', ''02'', ''2026'') \<and>
   parseIndianDate ist ''15/02/2026'' = JDate (Some 1771093800000) \<and>
   lastSeenDate asha = parseIndianDate ist ''15/02/2026'' \<and>
   leftmost numeric_at (normalizeText ''unknown'') = None \<and>
   native_parse ist (engine_input ''unknown'') = None \<and>
   parseIndianDate ist ''unknown'' = JNull"
proof -
  have found: "leftmost numeric_at (normalizeText ''15/02/2026'') = Some (''15'', ''02'', ''2026'')"
    by (simp add: regex_defs)
  have date: "new_Date_ymd ist (parseInt_digits ''2026'') (parseInt_digits ''02'' - 1)
                (parseInt_digits ''15'') = JDate (Some 1771093800000)"
    by (simp add: parseInt_digits_def new_Date_ymd_def make_day_def civil_defs msPerDay_def ist_def)
  have none: "leftmost numeric_at (normalizeText ''unknown'') = None"
    by (simp add: regex_defs)
  have engine: "native_parse ist (engine_input ''unknown'') = None"
    by (simp add: ist_def reads_nothing_def)
  show ?thesis
    using found date none engine
      parseIndianDate_branches [where s = "''15/02/2026''" and h = ist
        and d = "''15''" and m = "''02''" and y = "''2026''"]
      parseIndianDate_branches [where s = "''unknown''" and h = ist]
    by (simp add: asha_def date_or_null_def new_Date_string_def)
qed

text \<open>
  Claim C5 as it is stated fails on \<open>31/02/2026\<close>: there is no 31 February, so the text
  names no valid calendar date, yet the parser does not return \<open>null\<close>: it returns
  3 March 2026, the date it returns for \<open>03/03/2026\<close>.
\<close>

theorem parseIndianDate_rolls_over_counterexample:
  "\<not> spec_calendar_date 2026 2 31 \<and>
   parseIndianDate ist ''31/02/2026'' \<noteq> JNull \<and>
   parseIndianDate ist ''31/02/2026'' = JDate (Some 1772476200000) \<and>
   parseIndianDate ist ''03/03/2026'' = JDate (Some 1772476200000)"
  by (simp add: spec_calendar_date_def days_in_month_def leap_year_def parseIndianDate_def
      regex_defs new_Date_ymd_def make_day_def civil_defs msPerDay_def ist_def)

section \<open>The upsert of a batch\<close>

lemma upsert_insert:
  assumes "findOne (collection w) (dataHash r) = None" "fault e \<noteq> Some FindOne" "fault e \<noteq> Some Create"
  shows "upsert_record st e r (c, w) =
           (c\<lparr>inserted := inserted c + 1\<rparr>, w\<lparr>collection := collection w @ [new_document (now e) r]\<rparr>)"
  using assms by (simp add: upsert_record_def try_record_def)

lemma upsert_refresh:
  assumes "findOne (collection w) (dataHash r) = Some i"
    "\<not> strict_eq (status r) (status (collection w ! i))"
    "fault e \<noteq> Some FindOne" "fault e \<noteq> Some UpdateOne"
  shows "upsert_record st e r (c, w) =
           (c\<lparr>duplicates := duplicates c + 1\<rparr>,
            w\<lparr>collection := (collection w)[i := (collection w ! i)\<lparr>status := status r, updatedAt := JDate (Some (now e))\<rparr>]\<rparr>)"
  using assms by (simp add: upsert_record_def try_record_def refreshed_def)

lemma upsert_same:
  assumes "findOne (collection w) (dataHash r) = Some i"
    "strict_eq (status r) (status (collection w ! i))"
    "fault e \<noteq> Some FindOne"
  shows "upsert_record st e r (c, w) = (c\<lparr>duplicates := duplicates c + 1\<rparr>, w)"
  using assms by (simp add: upsert_record_def try_record_def)

lemma upsert_thrown_no_write:
  "error_log (snd (upsert_record st e r cw)) \<noteq> error_log (snd cw) \<Longrightarrow>
     collection (snd (upsert_record st e r cw)) = collection (snd cw)"
  by (cases cw) (auto simp: upsert_record_def try_record_def split: option.splits if_splits)

lemma upsert_step_accounting:
  "\<exists>ls. error_log (snd (upsert_record st e r cw)) = error_log (snd cw) @ ls \<and>
        inserted (fst (upsert_record st e r cw)) + duplicates (fst (upsert_record st e r cw)) + length ls =
        inserted (fst cw) + duplicates (fst cw) + 1 +
        length (filter (\<lambda>l. log_error l = StorageError UpdateOne) ls)"
  by (cases cw) (auto simp: upsert_record_def try_record_def split: option.splits if_splits)

lemma insert_loop_snoc:
  "insert_loop st envs k (rs @ [r]) cw = upsert_record st (envs (k + length rs)) r (insert_loop st envs k rs cw)"
  by (induction rs arbitrary: k cw) auto

lemma insertRecords_snoc:
  "insertRecords envs (rs @ [r]) st w = upsert_record st (envs (length rs)) r (insertRecords envs rs st w)"
  by (simp add: insertRecords_def insert_loop_snoc)

lemma insert_loop_accounting:
  "\<exists>ls. error_log (snd (insert_loop st envs k rs cw)) = error_log (snd cw) @ ls \<and>
        inserted (fst (insert_loop st envs k rs cw)) + duplicates (fst (insert_loop st envs k rs cw)) + length ls =
        inserted (fst cw) + duplicates (fst cw) + length rs +
        length (filter (\<lambda>l. log_error l = StorageError UpdateOne) ls)"
proof (induction rs rule: rev_induct)
  case Nil
  then show ?case by simp
next
  case (snoc r rs)
  let ?mid = "insert_loop st envs k rs cw"
  let ?e = "envs (k + length rs)"
  obtain ls where ls: "error_log (snd ?mid) = error_log (snd cw) @ ls"
    and n: "inserted (fst ?mid) + duplicates (fst ?mid) + length ls =
            inserted (fst cw) + duplicates (fst cw) + length rs +
            length (filter (\<lambda>l. log_error l = StorageError UpdateOne) ls)"
    using snoc.IH by blast
  obtain ls' where ls': "error_log (snd (upsert_record st ?e r ?mid)) = error_log (snd ?mid) @ ls'"
    and n': "inserted (fst (upsert_record st ?e r ?mid)) + duplicates (fst (upsert_record st ?e r ?mid)) + length ls' =
             inserted (fst ?mid) + duplicates (fst ?mid) + 1 +
             length (filter (\<lambda>l. log_error l = StorageError UpdateOne) ls')"
    using upsert_step_accounting [of st ?e r ?mid] by blast
  have "error_log (snd (insert_loop st envs k (rs @ [r]) cw)) = error_log (snd cw) @ (ls @ ls')"
    by (simp add: insert_loop_snoc ls ls')
  moreover have "inserted (fst (insert_loop st envs k (rs @ [r]) cw)) +
                 duplicates (fst (insert_loop st envs k (rs @ [r]) cw)) + length (ls @ ls') =
                 inserted (fst cw) + duplicates (fst cw) + length (rs @ [r]) +
                 length (filter (\<lambda>l. log_error l = StorageError UpdateOne) (ls @ ls'))"
    using n n' by (simp add: insert_loop_snoc)
  ultimately show ?case by blast
qed

lemma insertRecords_accounting:
  "inserted (fst (insertRecords envs rs st w)) + duplicates (fst (insertRecords envs rs st w)) +
     length (logged_failures w (snd (insertRecords envs rs st w))) =
   length rs + length (failed_updates w (snd (insertRecords envs rs st w)))"
proof -
  obtain ls where "error_log (snd (insertRecords envs rs st w)) = error_log w @ ls"
    and "inserted (fst (insertRecords envs rs st w)) + duplicates (fst (insertRecords envs rs st w)) + length ls =
         length rs + length (filter (\<lambda>l. log_error l = StorageError UpdateOne) ls)"
    using insert_loop_accounting [of st envs 0 rs "(\<lparr>inserted = 0, duplicates = 0\<rparr>, w)"]
    by (auto simp: insertRecords_def)
  then show ?thesis
    by (simp add: logged_failures_def failed_updates_def)
qed

text \<open>
  Claim C1, as the code has it. A record whose hash is not stored is inserted whole and
  counted as inserted; one whose hash is stored with another status has only \<open>status\<close>
  and \<open>updatedAt\<close> of the stored document changed and is counted as a duplicate; one
  whose hash is stored with the same status is counted as a duplicate and nothing is
  written; a record whose processing threw wrote nothing; the last record of a batch is
  processed whatever happened to the records before it; and over a batch, inserted plus
  duplicates plus logged failures is the number of records plus the number of failed
  status updates, since a record is counted as a duplicate before its update is tried.
\<close>

theorem insertRecords_upsert_accounting:
  "(findOne (collection w) (dataHash r) = None \<and> fault e \<noteq> Some FindOne \<and> fault e \<noteq> Some Create \<longrightarrow>
      upsert_record st e r (c, w) =
        (c\<lparr>inserted := inserted c + 1\<rparr>,
         w\<lparr>collection := collection w @ [new_document (now e) r]\<rparr>)) \<and>
   (findOne (collection w) (dataHash r) = Some i \<and>
    \<not> strict_eq (status r) (status (collection w ! i)) \<and>
    fault e \<noteq> Some FindOne \<and> fault e \<noteq> Some UpdateOne \<longrightarrow>
      upsert_record st e r (c, w) =
        (c\<lparr>duplicates := duplicates c + 1\<rparr>,
         w\<lparr>collection := (collection w)
              [i := (collection w ! i)\<lparr>status := status r, updatedAt := JDate (Some (now e))\<rparr>]\<rparr>)) \<and>
   (findOne (collection w) (dataHash r) = Some i \<and>
    strict_eq (status r) (status (collection w ! i)) \<and> fault e \<noteq> Some FindOne \<longrightarrow>
      upsert_record st e r (c, w) = (c\<lparr>duplicates := duplicates c + 1\<rparr>, w)) \<and>
   (error_log (snd (upsert_record st e r (c, w))) \<noteq> error_log w \<longrightarrow>
      collection (snd (upsert_record st e r (c, w))) = collection w) \<and>
   insertRecords envs (rs @ [r]) st w =
     upsert_record st (envs (length rs)) r (insertRecords envs rs st w) \<and>
   inserted (fst (insertRecords envs rs st w)) + duplicates (fst (insertRecords envs rs st w)) +
     length (logged_failures w (snd (insertRecords envs rs st w))) =
   length rs + length (failed_updates w (snd (insertRecords envs rs st w)))"
  using upsert_insert [of w r e st c] upsert_refresh [of w r i e st c] upsert_same [of w r i e st c]
    upsert_thrown_no_write [of st e r "(c, w)"] insertRecords_snoc [of envs rs r st w]
    insertRecords_accounting [of envs rs st w]
  by simp

text \<open>
  The theorem at work: the record reported as found meets its stored copy, whose status
  is refreshed; the batch of this one record counts one duplicate and no failure.
\<close>

theorem insertRecords_upsert_accounting_witness:
  "findOne (collection world_with_asha) (dataHash asha_found) = Some 0 \<and>
   \<not> strict_eq (status asha_found) (status (collection world_with_asha ! 0)) \<and>
   fault (calm 0) \<noteq> Some FindOne \<and> fault (calm 0) \<noteq> Some UpdateOne \<and>
   upsert_record ''Maharashtra'' (calm 0) asha_found (\<lparr>inserted = 0, duplicates = 0\<rparr>, world_with_asha) =
     (\<lparr>inserted = 0, duplicates = 1\<rparr>,
      world_with_asha\<lparr>collection :=
        [(new_document 1771100000000 asha)\<lparr>status := JStr ''found'',
                                             updatedAt := JDate (Some 1771200000000)\<rparr>]\<rparr>) \<and>
   inserted (fst (insertRecords calm [asha_found] ''Maharashtra'' world_with_asha)) +
   duplicates (fst (insertRecords calm [asha_found] ''Maharashtra'' world_with_asha)) +
   length (logged_failures world_with_asha
            (snd (insertRecords calm [asha_found] ''Maharashtra'' world_with_asha))) =
   length [asha_found] +
   length (failed_updates world_with_asha
            (snd (insertRecords calm [asha_found] ''Maharashtra'' world_with_asha)))"
  using insertRecords_upsert_accounting
    [where w = world_with_asha and r = asha_found and e = "calm 0" and st = "''Maharashtra''"
       and c = "\<lparr>inserted = 0, duplicates = 0\<rparr>" and i = 0 and envs = calm
       and rs = "[asha_found]"]
  by (simp add: world_with_asha_def asha_found_def asha_def calm_def new_document_def)

text \<open>
  Claim C1 as it is stated fails where the update of a status throws: the record has
  been counted as a duplicate and is logged as a failure too, so the three counts of a
  batch of one record add up to two.
\<close>

theorem insertRecords_counts_counterexample:
  "inserted (fst (insertRecords updates_fail [asha_found] ''Maharashtra'' world_with_asha)) +
   duplicates (fst (insertRecords updates_fail [asha_found] ''Maharashtra'' world_with_asha)) +
   length (logged_failures world_with_asha
            (snd (insertRecords updates_fail [asha_found] ''Maharashtra'' world_with_asha)))
   \<noteq> length [asha_found]"
  by (simp add: insertRecords_def upsert_record_def try_record_def logged_failures_def
      world_with_asha_def asha_found_def asha_def updates_fail_def new_document_def)

lemma same_fields_same_hash:
  "name p = name q \<Longrightarrow> lastSeenDate p = lastSeenDate q \<Longrightarrow> sourceURL p = sourceURL q \<Longrightarrow>
   generateDataHash h p = generateDataHash h q"
  by (simp add: generateDataHash_def identifierString_def)

lemma findOne_None_iff: "findOne ds h = None \<longleftrightarrow> (\<forall>d \<in> set ds. dataHash d \<noteq> h)"
  by (induction ds) auto

lemma findOne_Some_D:
  "findOne ds h = Some i \<Longrightarrow> i < length ds \<and> dataHash (ds ! i) = h"
  by (induction ds arbitrary: i) (auto split: if_splits)

lemma findOne_append_new:
  "findOne ds h = None \<Longrightarrow> dataHash d = h \<Longrightarrow> findOne (ds @ [d]) h = Some (length ds)"
  by (induction ds) auto

lemma findOne_update_same_hash:
  "i < length ds \<Longrightarrow> dataHash d = dataHash (ds ! i) \<Longrightarrow> findOne (ds[i := d]) h = findOne ds h"
proof (induction ds arbitrary: i)
  case Nil
  then show ?case by simp
next
  case (Cons a ds)
  then show ?case by (cases i) auto
qed

lemma count_hash_None:
  "findOne ds h = None \<Longrightarrow> length (filter (\<lambda>d. dataHash d = h) ds) = 0"
  by (simp add: findOne_None_iff)

lemma count_hash_Some:
  "findOne ds h = Some i \<Longrightarrow> 1 \<le> length (filter (\<lambda>d. dataHash d = h) ds)"
proof -
  assume "findOne ds h = Some i"
  then have "ds ! i \<in> set ds" "dataHash (ds ! i) = h"
    using findOne_Some_D by auto
  then have "filter (\<lambda>d. dataHash d = h) ds \<noteq> []"
    by (auto simp: filter_empty_conv)
  then show ?thesis
    by (cases "filter (\<lambda>d. dataHash d = h) ds") auto
qed

lemma filter_update_same_hash:
  "i < length ds \<Longrightarrow> dataHash d = dataHash (ds ! i) \<Longrightarrow>
   length (filter (\<lambda>x. dataHash x = h) (ds[i := d])) = length (filter (\<lambda>x. dataHash x = h) ds)"
proof (induction ds arbitrary: i)
  case Nil
  then show ?case by simp
next
  case (Cons a ds)
  then show ?case by (cases i) auto
qed

lemma insertRecords_single:
  "insertRecords envs [r] st w = upsert_record st (envs 0) r (\<lparr>inserted = 0, duplicates = 0\<rparr>, w)"
  by (simp add: insertRecords_def)

lemma strict_eq_JStr: "strict_eq (JStr s) v \<longleftrightarrow> v = JStr s"
  by (cases v) auto

text \<open>
  Claim C3. A record ingested a second time unchanged (same name, date, source URL and
  status, hence the same fingerprint on the same host) is counted as a duplicate and
  nothing is written or logged: the world after the second ingestion is the world
  after the first, every \<open>createdAt\<close> included, and exactly one stored document carries
  the fingerprint. The first ingestion meets no failure, the second can read the
  storage, and the collection holds a fingerprint at most once (the unique index).
\<close>

theorem reingestion_idempotent:
  assumes fp: "fingerprinted h r" "fingerprinted h r'"
    and same: "name r' = name r" "lastSeenDate r' = lastSeenDate r" "sourceURL r' = sourceURL r"
      "status r' = status r"
    and st: "status r = JStr s"
    and calm: "fault (envs 0) = None" "fault (envs' 0) \<noteq> Some FindOne"
    and uniq: "length (filter (\<lambda>d. dataHash d = dataHash r) (collection w)) \<le> 1"
  shows "snd (insertRecords envs' [r'] st' (snd (insertRecords envs [r] st w))) =
           snd (insertRecords envs [r] st w) \<and>
         fst (insertRecords envs' [r'] st' (snd (insertRecords envs [r] st w))) =
           \<lparr>inserted = 0, duplicates = 1\<rparr> \<and>
         map createdAt (collection (snd (insertRecords envs' [r'] st' (snd (insertRecords envs [r] st w))))) =
           map createdAt (collection (snd (insertRecords envs [r] st w))) \<and>
         length (filter (\<lambda>d. dataHash d = dataHash r)
           (collection (snd (insertRecords envs' [r'] st' (snd (insertRecords envs [r] st w)))))) = 1"
proof -
  let ?c0 = "\<lparr>inserted = 0, duplicates = 0\<rparr>"
  let ?first = "insertRecords envs [r] st w"
  have hash: "dataHash r' = dataHash r"
    using fp same same_fields_same_hash [of r' r h] by (simp add: fingerprinted_def)
  have first: "\<exists>i. findOne (collection (snd ?first)) (dataHash r) = Some i \<and>
                   status (collection (snd ?first) ! i) = JStr s \<and>
                   length (filter (\<lambda>d. dataHash d = dataHash r) (collection (snd ?first))) = 1"
  proof (cases "findOne (collection w) (dataHash r)")
    case None
    then have "?first = (?c0\<lparr>inserted := inserted ?c0 + 1\<rparr>,
                         w\<lparr>collection := collection w @ [new_document (now (envs 0)) r]\<rparr>)"
      using calm by (simp add: insertRecords_single upsert_insert)
    moreover have "dataHash (new_document (now (envs 0)) r) = dataHash r"
      "status (new_document (now (envs 0)) r) = JStr s"
      using st by (simp_all add: new_document_def)
    ultimately show ?thesis
      using None by (simp add: findOne_append_new count_hash_None)
  next
    case (Some i)
    then have i: "i < length (collection w)" "dataHash (collection w ! i) = dataHash r"
      using findOne_Some_D by auto
    have one: "length (filter (\<lambda>d. dataHash d = dataHash r) (collection w)) = 1"
      using uniq count_hash_Some [OF Some] by simp
    show ?thesis
    proof (cases "strict_eq (status r) (status (collection w ! i))")
      case True
      then have "?first = (?c0\<lparr>duplicates := duplicates ?c0 + 1\<rparr>, w)"
        using Some calm by (simp add: insertRecords_single upsert_same)
      moreover have "status (collection w ! i) = JStr s"
        using True st by (simp add: strict_eq_JStr)
      ultimately show ?thesis using Some one by simp
    next
      case False
      let ?d = "(collection w ! i)\<lparr>status := status r, updatedAt := JDate (Some (now (envs 0)))\<rparr>"
      have "?first = (?c0\<lparr>duplicates := duplicates ?c0 + 1\<rparr>,
                      w\<lparr>collection := (collection w)[i := ?d]\<rparr>)"
        using Some False calm by (simp add: insertRecords_single upsert_refresh)
      moreover have "dataHash ?d = dataHash (collection w ! i)" by simp
      ultimately show ?thesis
        using Some i one st by (simp add: findOne_update_same_hash filter_update_same_hash)
    qed
  qed
  then obtain i where i: "findOne (collection (snd ?first)) (dataHash r') = Some i"
    "strict_eq (status r') (status (collection (snd ?first) ! i))"
    and one: "length (filter (\<lambda>d. dataHash d = dataHash r) (collection (snd ?first))) = 1"
    using hash same st by auto
  have "insertRecords envs' [r'] st' (snd ?first) =
          (?c0\<lparr>duplicates := duplicates ?c0 + 1\<rparr>, snd ?first)"
    using i calm by (simp add: insertRecords_single upsert_same)
  then show ?thesis using one by simp
qed

text \<open>
  The scenario of the specification: \<open>Asha Rao\<close> ingested twice into an empty
  collection leaves the one document the first ingestion stored.
\<close>

theorem reingestion_idempotent_witness:
  "fingerprinted ist asha \<and> status asha = JStr ''missing'' \<and> fault (calm 0) = None \<and>
   length (filter (\<lambda>d. dataHash d = dataHash asha) (collection empty_world)) \<le> 1 \<and>
   snd (insertRecords calm [asha] ''Maharashtra'' (snd (insertRecords calm [asha] ''Maharashtra'' empty_world))) =
     snd (insertRecords calm [asha] ''Maharashtra'' empty_world) \<and>
   fst (insertRecords calm [asha] ''Maharashtra'' (snd (insertRecords calm [asha] ''Maharashtra'' empty_world))) =
     \<lparr>inserted = 0, duplicates = 1\<rparr> \<and>
   collection (snd (insertRecords calm [asha] ''Maharashtra''
                     (snd (insertRecords calm [asha] ''Maharashtra'' empty_world)))) =
     [new_document 1771200000000 asha] \<and>
   length (filter (\<lambda>d. dataHash d = dataHash asha)
     (collection (snd (insertRecords calm [asha] ''Maharashtra''
                        (snd (insertRecords calm [asha] ''Maharashtra'' empty_world)))))) = 1"
proof -
  have first: "snd (insertRecords calm [asha] ''Maharashtra'' empty_world) =
               empty_world\<lparr>collection := [new_document 1771200000000 asha]\<rparr>"
    by (simp add: insertRecords_def upsert_record_def try_record_def empty_world_def calm_def)
  have "status asha = JStr ''missing''" "fault (calm 0) = None"
    "length (filter (\<lambda>d. dataHash d = dataHash asha) (collection empty_world)) \<le> 1"
    by (simp_all add: asha_def calm_def empty_world_def)
  then show ?thesis
    using asha_fingerprinted first
      reingestion_idempotent [where h = ist and r = asha and r' = asha and s = "''missing''"
        and envs = calm and envs' = calm and w = empty_world
        and st = "''Maharashtra''" and st' = "''Maharashtra''"]
    by (simp add: new_document_def)
qed

text \<open>
  Claim C10. Two records that agree on name, date of last sight and source URL have
  the same fingerprint on a host, whatever their other fields. Upserted one after the
  other into a collection that does not hold the fingerprint, with no failure, the
  first is inserted and the second is counted as a duplicate; the one document stored
  is the first record, with at most its status and \<open>updatedAt\<close> taken from the second:
  no other field of the second record is stored.
\<close>

theorem fingerprint_conflates_records:
  assumes fp: "fingerprinted h r1" "fingerprinted h r2"
    and same: "name r2 = name r1" "lastSeenDate r2 = lastSeenDate r1" "sourceURL r2 = sourceURL r1"
    and fresh: "findOne (collection w) (dataHash r1) = None"
    and calm: "fault (envs 0) = None" "fault (envs 1) = None"
  shows "generateDataHash h r2 = generateDataHash h r1 \<and>
         fst (insertRecords envs [r1, r2] st w) = \<lparr>inserted = 1, duplicates = 1\<rparr> \<and>
         collection (snd (insertRecords envs [r1, r2] st w)) =
           collection w @
             [if strict_eq (status r2) (status (new_document (now (envs 0)) r1))
              then new_document (now (envs 0)) r1
              else (new_document (now (envs 0)) r1)
                     \<lparr>status := status r2, updatedAt := JDate (Some (now (envs 1)))\<rparr>] \<and>
         other_fields (last (collection (snd (insertRecords envs [r1, r2] st w)))) = other_fields r1"
proof -
  let ?c0 = "\<lparr>inserted = 0, duplicates = 0\<rparr>"
  let ?d = "new_document (now (envs 0)) r1"
  let ?ds = "collection w @ [?d]"
  have gen: "generateDataHash h r2 = generateDataHash h r1"
    using same by (rule same_fields_same_hash)
  then have hash: "dataHash r2 = dataHash r1"
    using fp by (simp add: fingerprinted_def)
  have one: "upsert_record st (envs 0) r1 (?c0, w) =
               (?c0\<lparr>inserted := inserted ?c0 + 1\<rparr>, w\<lparr>collection := ?ds\<rparr>)"
    using fresh calm by (simp add: upsert_insert)
  have found: "findOne ?ds (dataHash r2) = Some (length (collection w))"
    using fresh hash by (simp add: findOne_append_new new_document_def)
  have two: "insertRecords envs [r1, r2] st w =
               upsert_record st (envs 1) r2 (\<lparr>inserted = 1, duplicates = 0\<rparr>, w\<lparr>collection := ?ds\<rparr>)"
    using one by (simp add: insertRecords_def)
  have fields: "other_fields ?d = other_fields r1"
    "other_fields (?d\<lparr>status := status r2, updatedAt := JDate (Some (now (envs 1)))\<rparr>) = other_fields r1"
    by (simp_all add: other_fields_def new_document_def)
  show ?thesis
  proof (cases "strict_eq (status r2) (status ?d)")
    case True
    then have "insertRecords envs [r1, r2] st w =
                 (\<lparr>inserted = 1, duplicates = 1\<rparr>, w\<lparr>collection := ?ds\<rparr>)"
      using two found calm
        upsert_same [of "w\<lparr>collection := ?ds\<rparr>" r2 "length (collection w)" "envs 1" st
          "\<lparr>inserted = 1, duplicates = 0\<rparr>"]
      by simp
    then show ?thesis using gen True fields by simp
  next
    case False
    then have "insertRecords envs [r1, r2] st w =
                 (\<lparr>inserted = 1, duplicates = 1\<rparr>,
                  w\<lparr>collection := collection w @
                     [?d\<lparr>status := status r2, updatedAt := JDate (Some (now (envs 1)))\<rparr>]\<rparr>)"
      using two found calm
        upsert_refresh [of "w\<lparr>collection := ?ds\<rparr>" r2 "length (collection w)" "envs 1" st
          "\<lparr>inserted = 1, duplicates = 0\<rparr>"]
      by simp
    then show ?thesis using gen False fields by simp
  qed
qed

text \<open>
  The record of the scenario and a second report of it with another age, gender and
  place: one document is stored, and it is the first record.
\<close>

theorem fingerprint_conflates_records_witness:
  "fingerprinted ist asha \<and> fingerprinted ist asha_elsewhere \<and>
   name asha_elsewhere = name asha \<and> lastSeenDate asha_elsewhere = lastSeenDate asha \<and>
   sourceURL asha_elsewhere = sourceURL asha \<and> age asha_elsewhere \<noteq> age asha \<and>
   findOne (collection empty_world) (dataHash asha) = None \<and>
   fault (calm 0) = None \<and> fault (calm 1) = None \<and>
   fst (insertRecords calm [asha, asha_elsewhere] ''Maharashtra'' empty_world) =
     \<lparr>inserted = 1, duplicates = 1\<rparr> \<and>
   collection (snd (insertRecords calm [asha, asha_elsewhere] ''Maharashtra'' empty_world)) =
     [new_document 1771200000000 asha]"
proof -
  have same: "name asha_elsewhere = name asha" "lastSeenDate asha_elsewhere = lastSeenDate asha"
    "sourceURL asha_elsewhere = sourceURL asha" "dataHash asha_elsewhere = dataHash asha"
    by (simp_all add: asha_elsewhere_def)
  have fp2: "fingerprinted ist asha_elsewhere"
    using asha_fingerprinted same same_fields_same_hash [of asha_elsewhere asha ist]
    by (simp add: fingerprinted_def)
  have rest: "age asha_elsewhere \<noteq> age asha" "findOne (collection empty_world) (dataHash asha) = None"
    "fault (calm 0) = None" "fault (calm 1) = None"
    "strict_eq (status asha_elsewhere) (status (new_document (now (calm 0)) asha))"
    "now (calm 0) = 1771200000000"
    by (simp_all add: asha_elsewhere_def asha_def empty_world_def calm_def new_document_def)
  show ?thesis
    using asha_fingerprinted fp2 same rest
      fingerprint_conflates_records [where h = ist and ?r1.0 = asha and ?r2.0 = asha_elsewhere
        and w = empty_world and envs = calm and st = "''Maharashtra''"]
    by (simp add: empty_world_def)
qed

section \<open>The orchestrator and the HTTP client\<close>

lemma fetch_from_exhausted:
  assumes "\<forall>k. attempt \<le> k \<and> k < RETRY_ATTEMPTS \<longrightarrow> \<not> succeeded (net k)"
  shows "\<exists>msg s. fetch_from net url attempt lastError slept =
                   (Inl (ScraperError ''FETCH_FAILED'' msg url), s)"
  using assms
proof (induction net url attempt lastError slept rule: fetch_from.induct)
  case (1 net url attempt lastError slept)
  show ?case
  proof (cases "attempt < RETRY_ATTEMPTS")
    case False
    then show ?thesis by (simp add: fetch_from.simps)
  next
    case True
    have later: "\<forall>k. attempt + 1 \<le> k \<and> k < RETRY_ATTEMPTS \<longrightarrow> \<not> succeeded (net k)"
      using "1.prems" by simp
    have here: "\<not> succeeded (net attempt)"
      using "1.prems" True by simp
    show ?thesis
    proof (cases "net attempt")
      case (Response code statusText body)
      then have "code \<noteq> 200" using here by simp
      then show ?thesis
        using "1.IH"(1) [OF True Response _ later] True Response
        by (subst fetch_from.simps) simp
    next
      case (Failure msg)
      then show ?thesis
        using "1.IH"(2) [OF True Failure later] True
        by (subst fetch_from.simps) simp
    qed
  qed
qed

lemma scrape_exhausted:
  assumes "\<forall>k < RETRY_ATTEMPTS. \<not> succeeded (network s k)"
  shows "\<exists>msg. scrape s = Inl (ScraperError ''FETCH_FAILED'' msg (source_url s))"
proof -
  obtain msg sl where "fetch (network s) (source_url s) =
                        (Inl (ScraperError ''FETCH_FAILED'' msg (source_url s)), sl)"
    using fetch_from_exhausted [of 0 "network s" "source_url s" None "[]"] assms
    by (auto simp: fetch_def)
  then show ?thesis by (auto simp: scrape_def)
qed

lemma run_source_thrown:
  "scrape s = Inl e \<Longrightarrow>
   run_source s w =
     (empty_result\<lparr>error_message := Some (message e)\<rparr>,
      w\<lparr>error_log := error_log w @
          [\<lparr>log_state = source_name s, log_error = e, log_context = None\<rparr>]\<rparr>)"
  by (simp add: run_source_def)

lemma run_source_complete:
  "scrape s = Inr records \<Longrightarrow>
   run_source s w =
     (empty_result\<lparr>scraped := length records, n_valid := length (fst (transform records)),
        n_invalid := length (snd (transform records)),
        inserted := inserted (fst (insertRecords (storage s) (fst (transform records)) (source_name s)
                      (log_invalid (source_name s) (snd (transform records)) w))),
        duplicates := duplicates (fst (insertRecords (storage s) (fst (transform records)) (source_name s)
                      (log_invalid (source_name s) (snd (transform records)) w)))\<rparr>,
      snd (insertRecords (storage s) (fst (transform records)) (source_name s)
             (log_invalid (source_name s) (snd (transform records)) w)))"
  by (simp add: run_source_def Let_def)

text \<open>The counters and the collection do not depend on what the logs hold.\<close>

lemma upsert_record_logs:
  assumes "collection (snd cw) = collection (snd cw')" "fst cw = fst cw'"
  shows "fst (upsert_record st e r cw) = fst (upsert_record st e r cw') \<and>
         collection (snd (upsert_record st e r cw)) = collection (snd (upsert_record st e r cw'))"
  using assms
  by (cases cw; cases cw')
     (auto simp: upsert_record_def try_record_def split: option.splits)

lemma insert_loop_logs:
  assumes "collection (snd cw) = collection (snd cw')" "fst cw = fst cw'"
  shows "fst (insert_loop st envs k rs cw) = fst (insert_loop st envs k rs cw') \<and>
         collection (snd (insert_loop st envs k rs cw)) = collection (snd (insert_loop st envs k rs cw'))"
  using assms
proof (induction rs arbitrary: k cw cw')
  case Nil
  then show ?case by simp
next
  case (Cons r rs)
  have "fst (upsert_record st (envs k) r cw) = fst (upsert_record st (envs k) r cw') \<and>
        collection (snd (upsert_record st (envs k) r cw)) =
        collection (snd (upsert_record st (envs k) r cw'))"
    using Cons.prems by (rule upsert_record_logs)
  then show ?case
    using Cons.IH [of "upsert_record st (envs k) r cw" "upsert_record st (envs k) r cw'" "Suc k"]
    by simp
qed

lemma run_source_logs:
  assumes "collection w = collection w'"
  shows "fst (run_source s w) = fst (run_source s w') \<and>
         collection (snd (run_source s w)) = collection (snd (run_source s w'))"
proof (cases "scrape s")
  case (Inl e)
  then show ?thesis using assms by (simp add: run_source_thrown)
next
  case (Inr records)
  let ?ok = "fst (transform records)"
  let ?bad = "snd (transform records)"
  have "collection (log_invalid (source_name s) ?bad w) = collection (log_invalid (source_name s) ?bad w')"
    using assms by (simp add: log_invalid_def)
  then have "fst (insertRecords (storage s) ?ok (source_name s) (log_invalid (source_name s) ?bad w)) =
             fst (insertRecords (storage s) ?ok (source_name s) (log_invalid (source_name s) ?bad w')) \<and>
             collection (snd (insertRecords (storage s) ?ok (source_name s) (log_invalid (source_name s) ?bad w))) =
             collection (snd (insertRecords (storage s) ?ok (source_name s) (log_invalid (source_name s) ?bad w')))"
    unfolding insertRecords_def by (intro insert_loop_logs) simp_all
  then show ?thesis using Inr by (simp add: run_source_complete)
qed

lemma run_source_thrown_collection:
  "scrape s = Inl e \<Longrightarrow> collection (snd (run_source s w)) = collection w"
  by (simp add: run_source_thrown)

text \<open>
  Claim C9. When every attempt to fetch a source fails, its scrape throws
  \<open>FETCH_FAILED\<close> with the URL of the source; the batch of the source is not run (its
  result counts nothing and carries the message, the collection is untouched, the error
  is logged); and whichever of the three sources it is, the results of the two others
  and the collection at the end are those of the two others run in turn without it.
  A source whose scrape returns runs the whole sequence: transform, log of the invalid
  records, insertion of the valid ones.
\<close>

theorem failed_source_is_isolated:
  assumes "\<forall>k < RETRY_ATTEMPTS. \<not> succeeded (network s k)"
  shows "(\<exists>msg.
           scrape s = Inl (ScraperError ''FETCH_FAILED'' msg (source_url s)) \<and>
           run_source s w =
             (empty_result\<lparr>error_message := Some msg\<rparr>,
              w\<lparr>error_log := error_log w @
                  [\<lparr>log_state = source_name s,
                    log_error = ScraperError ''FETCH_FAILED'' msg (source_url s),
                    log_context = None\<rparr>]\<rparr>) \<and>
           fst (runETLPipeline s a b w) =
             (empty_result\<lparr>error_message := Some msg\<rparr>, fst (fst (run_two a b w)), snd (fst (run_two a b w))) \<and>
           fst (runETLPipeline a s b w) =
             (fst (fst (run_two a b w)), empty_result\<lparr>error_message := Some msg\<rparr>, snd (fst (run_two a b w))) \<and>
           fst (runETLPipeline a b s w) =
             (fst (fst (run_two a b w)), snd (fst (run_two a b w)), empty_result\<lparr>error_message := Some msg\<rparr>) \<and>
           collection (snd (runETLPipeline s a b w)) = collection (snd (run_two a b w)) \<and>
           collection (snd (runETLPipeline a s b w)) = collection (snd (run_two a b w)) \<and>
           collection (snd (runETLPipeline a b s w)) = collection (snd (run_two a b w))) \<and>
         (scrape a = Inr records \<longrightarrow>
           run_source a w =
             (empty_result\<lparr>scraped := length records, n_valid := length (fst (transform records)),
                n_invalid := length (snd (transform records)),
                inserted := inserted (fst (insertRecords (storage a) (fst (transform records)) (source_name a)
                              (log_invalid (source_name a) (snd (transform records)) w))),
                duplicates := duplicates (fst (insertRecords (storage a) (fst (transform records)) (source_name a)
                              (log_invalid (source_name a) (snd (transform records)) w)))\<rparr>,
              snd (insertRecords (storage a) (fst (transform records)) (source_name a)
                     (log_invalid (source_name a) (snd (transform records)) w))))"
proof -
  obtain msg where thrown: "scrape s = Inl (ScraperError ''FETCH_FAILED'' msg (source_url s))"
    using scrape_exhausted [OF assms] by blast
  let ?failed = "empty_result\<lparr>error_message := Some msg\<rparr>"
  have run: "\<And>w. run_source s w =
             (?failed,
              w\<lparr>error_log := error_log w @
                  [\<lparr>log_state = source_name s,
                    log_error = ScraperError ''FETCH_FAILED'' msg (source_url s),
                    log_context = None\<rparr>]\<rparr>)"
    using thrown by (simp add: run_source_thrown)
  have keep: "\<And>w. collection (snd (run_source s w)) = collection w"
    by (simp add: run)
  have first: "fst (run_source a (snd (run_source s w))) = fst (run_source a w)"
    "collection (snd (run_source a (snd (run_source s w)))) = collection (snd (run_source a w))"
    using run_source_logs [of "snd (run_source s w)" w a] keep by simp_all
  have first_b: "fst (run_source b (snd (run_source a (snd (run_source s w))))) =
                 fst (run_source b (snd (run_source a w)))"
    "collection (snd (run_source b (snd (run_source a (snd (run_source s w)))))) =
     collection (snd (run_source b (snd (run_source a w))))"
    using run_source_logs [of "snd (run_source a (snd (run_source s w)))" "snd (run_source a w)" b] first
    by simp_all
  have middle: "fst (run_source b (snd (run_source s (snd (run_source a w))))) =
                fst (run_source b (snd (run_source a w)))"
    "collection (snd (run_source b (snd (run_source s (snd (run_source a w)))))) =
     collection (snd (run_source b (snd (run_source a w))))"
    using run_source_logs [of "snd (run_source s (snd (run_source a w)))" "snd (run_source a w)" b] keep
    by simp_all
  have isolated: "\<exists>msg.
           scrape s = Inl (ScraperError ''FETCH_FAILED'' msg (source_url s)) \<and>
           run_source s w =
             (empty_result\<lparr>error_message := Some msg\<rparr>,
              w\<lparr>error_log := error_log w @
                  [\<lparr>log_state = source_name s,
                    log_error = ScraperError ''FETCH_FAILED'' msg (source_url s),
                    log_context = None\<rparr>]\<rparr>) \<and>
           fst (runETLPipeline s a b w) =
             (empty_result\<lparr>error_message := Some msg\<rparr>, fst (fst (run_two a b w)), snd (fst (run_two a b w))) \<and>
           fst (runETLPipeline a s b w) =
             (fst (fst (run_two a b w)), empty_result\<lparr>error_message := Some msg\<rparr>, snd (fst (run_two a b w))) \<and>
           fst (runETLPipeline a b s w) =
             (fst (fst (run_two a b w)), snd (fst (run_two a b w)), empty_result\<lparr>error_message := Some msg\<rparr>) \<and>
           collection (snd (runETLPipeline s a b w)) = collection (snd (run_two a b w)) \<and>
           collection (snd (runETLPipeline a s b w)) = collection (snd (run_two a b w)) \<and>
           collection (snd (runETLPipeline a b s w)) = collection (snd (run_two a b w))"
    using thrown run [of w] first first_b middle keep
    by (intro exI [of _ msg]) (simp add: runETLPipeline_def run_two_def Let_def run)
  have complete: "scrape a = Inr records \<longrightarrow>
           run_source a w =
             (empty_result\<lparr>scraped := length records, n_valid := length (fst (transform records)),
                n_invalid := length (snd (transform records)),
                inserted := inserted (fst (insertRecords (storage a) (fst (transform records)) (source_name a)
                              (log_invalid (source_name a) (snd (transform records)) w))),
                duplicates := duplicates (fst (insertRecords (storage a) (fst (transform records)) (source_name a)
                              (log_invalid (source_name a) (snd (transform records)) w)))\<rparr>,
              snd (insertRecords (storage a) (fst (transform records)) (source_name a)
                     (log_invalid (source_name a) (snd (transform records)) w)))"
    by (simp add: run_source_complete)
  show ?thesis
    using isolated complete by (rule conjI)
qed

text \<open>
  The three sources of the example: the first cannot be reached; the second returns the
  record of the scenario; the third returns the same person as found and a candidate
  aged 200, which the transformer sets aside. The failed source changes nothing, the
  second inserts the record, the third refreshes its status.
\<close>

theorem failed_source_is_isolated_witness:
  "scrape maharashtra_down =
     Inl (ScraperError ''FETCH_FAILED''
            ''Failed to fetch after 3 attempts: timeout of 30000ms exceeded''
            (source_url maharashtra_down)) \<and>
   fst (runETLPipeline maharashtra_down karnataka_up delhi_up empty_world) =
     (empty_result\<lparr>error_message :=
         Some ''Failed to fetch after 3 attempts: timeout of 30000ms exceeded''\<rparr>,
      empty_result\<lparr>scraped := 1, n_valid := 1, inserted := 1\<rparr>,
      empty_result\<lparr>scraped := 2, n_valid := 1, n_invalid := 1, duplicates := 1\<rparr>) \<and>
   collection (snd (runETLPipeline maharashtra_down karnataka_up delhi_up empty_world)) =
     [(new_document 1771200000000 asha)\<lparr>status := JStr ''found'',
                                          updatedAt := JDate (Some 1771200000000)\<rparr>]"
proof -
  have down: "\<forall>k < RETRY_ATTEMPTS. \<not> succeeded (network maharashtra_down k)"
    by (simp add: maharashtra_down_def always_down_def)
  have thrown: "scrape maharashtra_down =
     Inl (ScraperError ''FETCH_FAILED''
            ''Failed to fetch after 3 attempts: timeout of 30000ms exceeded''
            (source_url maharashtra_down))"
    by (simp add: scrape_def fetch_def fetch_from.simps RETRY_ATTEMPTS_def maharashtra_down_def
        always_down_def decimal_numeral digit_char_def)
  have k: "run_source karnataka_up empty_world =
     (empty_result\<lparr>scraped := 1, n_valid := 1, inserted := 1\<rparr>,
      empty_world\<lparr>collection := [new_document 1771200000000 asha]\<rparr>)"
    by (simp add: run_source_def scrape_def fetch_def fetch_from.simps RETRY_ATTEMPTS_def
        karnataka_up_def always_up_def one_row_def transform_def checked_def field_errors_def
        log_invalid_def insertRecords_def upsert_record_def try_record_def
        empty_world_def empty_result_def calm_def asha_def)
  have d: "run_source delhi_up (empty_world\<lparr>collection := [new_document 1771200000000 asha]\<rparr>) =
     (empty_result\<lparr>scraped := 2, n_valid := 1, n_invalid := 1, duplicates := 1\<rparr>,
      empty_world\<lparr>collection :=
          [(new_document 1771200000000 asha)\<lparr>status := JStr ''found'',
                                               updatedAt := JDate (Some 1771200000000)\<rparr>],
        validation_log :=
          [(''Delhi'', [(asha\<lparr>age := JNum (Fin 200)\<rparr>,
                         [''Age must be a number between 0 and 150''])])]\<rparr>)"
    by (simp add: run_source_def scrape_def fetch_def fetch_from.simps RETRY_ATTEMPTS_def
        delhi_up_def always_up_def two_rows_def transform_def checked_def field_errors_def
        log_invalid_def insertRecords_def upsert_record_def try_record_def refreshed_def
        new_document_def empty_world_def empty_result_def calm_def asha_def asha_found_def)
  have two: "run_two karnataka_up delhi_up empty_world =
     ((empty_result\<lparr>scraped := 1, n_valid := 1, inserted := 1\<rparr>,
       empty_result\<lparr>scraped := 2, n_valid := 1, n_invalid := 1, duplicates := 1\<rparr>),
      empty_world\<lparr>collection :=
          [(new_document 1771200000000 asha)\<lparr>status := JStr ''found'',
                                               updatedAt := JDate (Some 1771200000000)\<rparr>],
        validation_log :=
          [(''Delhi'', [(asha\<lparr>age := JNum (Fin 200)\<rparr>,
                         [''Age must be a number between 0 and 150''])])]\<rparr>)"
    by (simp add: run_two_def k d)
  show ?thesis
    using failed_source_is_isolated [OF down, where a = karnataka_up and b = delhi_up and w = empty_world]
      thrown two
    by auto
qed

section \<open>The analytics views\<close>

lemma those_Some_D:
  "those (map f ks) = Some gs \<Longrightarrow> g \<in> set gs \<Longrightarrow> \<exists>k \<in> set ks. f k = Some g"
proof (induction ks arbitrary: gs)
  case Nil
  then show ?case by simp
next
  case (Cons k ks)
  then show ?case by (auto split: option.splits)
qed

lemma count_found_among_missing:
  "\<forall>d \<in> set docs. status d = JStr ''missing'' \<Longrightarrow> count_status ''found'' docs = 0"
  by (induction docs) (auto simp: count_status_def)

lemma hotspot_of_foundCount:
  "hotspot_of k docs = Some g \<Longrightarrow> foundCount g = count_status ''found'' docs"
  by (auto simp: hotspot_of_def hotspot_tally_def)

lemma mongo_divide_positive:
  "0 < b \<Longrightarrow> mongo_divide a b = Some (a / b)"
  by (simp add: mongo_divide_def)

lemma risk_value:
  "risk g = Some (of_nat (missingCount g) / of_nat (missingCount g + foundCount g + 1) * 100)"
  by (simp add: risk_def mongo_divide_def del: of_nat_add of_nat_Suc)

lemma resolution_value:
  "resolution g =
     Some (mongo_round (of_nat (foundCount g) / of_nat (missingCount g + foundCount g + 1) * 100) 2)"
  by (simp add: resolution_def mongo_divide_def del: of_nat_add of_nat_Suc)

lemma those_all_Some:
  "(\<And>k. k \<in> set ks \<Longrightarrow> f k \<noteq> None) \<Longrightarrow> those (map f ks) \<noteq> None"
  by (induction ks) (auto split: option.splits)

lemma half_even_bounds:
  assumes "0 \<le> y" "y \<le> of_int n"
  shows "0 \<le> half_even y \<and> half_even y \<le> n"
proof -
  have fl: "0 \<le> \<lfloor>y\<rfloor>" "\<lfloor>y\<rfloor> \<le> n"
    using assms by (simp_all add: floor_le_iff le_floor_iff) 
  have "half_even y \<le> n"
  proof (cases "\<lfloor>y\<rfloor> = n")
    case True
    then have "y - of_int \<lfloor>y\<rfloor> \<le> 0" using assms by simp
    then show ?thesis using True by (simp add: half_even_def)
  next
    case False
    then have "\<lfloor>y\<rfloor> + 1 \<le> n" using fl by simp
    then show ?thesis by (simp add: half_even_def)
  qed
  moreover have "0 \<le> half_even y"
    using fl by (simp add: half_even_def)
  ultimately show ?thesis by simp
qed

lemma ratio_bounds:
  fixes a b :: nat
  shows "0 \<le> (of_nat a :: rat) / of_nat (b + a + 1) * 100"
    and "(of_nat a :: rat) / of_nat (b + a + 1) * 100 < 100"
proof -
  define q where "q = (of_nat a :: rat) / of_nat (b + a + 1)"
  have pos: "(0::rat) < of_nat (b + a + 1)"
    by (simp del: of_nat_add of_nat_Suc)
  have lt: "(of_nat a :: rat) < of_nat (b + a + 1)"
    by (simp del: of_nat_add of_nat_Suc add: of_nat_less_iff)
  have "0 \<le> q" "q < 1"
    using pos lt by (simp_all add: q_def divide_less_eq_1 del: of_nat_add of_nat_Suc)
  then have "0 \<le> q * 100" "q * 100 < 100"
    by simp_all
  then show "0 \<le> (of_nat a :: rat) / of_nat (b + a + 1) * 100"
    and "(of_nat a :: rat) / of_nat (b + a + 1) * 100 < 100"
    by (simp_all only: q_def)
qed

lemma mongo_round_percent:
  assumes "0 \<le> x" "x \<le> 100"
  shows "0 \<le> mongo_round x 2 \<and> mongo_round x 2 \<le> 100"
proof -
  have "0 \<le> x * 10 ^ 2" "x * 10 ^ 2 \<le> of_int 10000"
    using assms by simp_all
  then have "0 \<le> half_even (x * 10 ^ 2) \<and> half_even (x * 10 ^ 2) \<le> 10000"
    by (rule half_even_bounds)
  then show ?thesis
    by (simp add: mongo_round_def divide_le_eq)
qed

text \<open>
  Claim C6. The hotspots view keeps the documents whose status is \<open>missing\<close> (last seen
  in the last 90 days) and counts the status \<open>found\<close> among the documents it kept, so
  every hotspot it returns has a \<open>foundCount\<close> of 0.
\<close>

theorem hotspots_foundCount_zero:
  assumes "hotspots t docs = Inr gs"
  shows "\<forall>g \<in> set gs. foundCount g = 0"
proof
  fix g assume g: "g \<in> set gs"
  let ?matched = "filter (hotspot_match t) docs"
  let ?f = "\<lambda>k. hotspot_of k (filter (\<lambda>d. sourceState d = k) ?matched)"
  obtain groups where groups: "those (map ?f (remdups (map sourceState ?matched))) = Some groups"
    and gs: "gs = take 20 (sort_key (\<lambda>g. - int (missingCount g)) groups)"
    using assms by (auto simp: hotspots_def Let_def split: option.splits)
  have "g \<in> set groups"
    using g gs by (auto dest: in_set_takeD)
  then obtain k where "?f k = Some g"
    using those_Some_D [OF groups] by blast
  then have "foundCount g = count_status ''found'' (filter (\<lambda>d. sourceState d = k) ?matched)"
    by (rule hotspot_of_foundCount)
  also have "\<dots> = 0"
    by (rule count_found_among_missing) (simp add: hotspot_match_def)
  finally show "foundCount g = 0" .
qed

text \<open>
  Three documents of one state, at time 1771200000000: a missing person last seen two
  days before, the same person found, and a missing person last seen in 1970. One
  hotspot comes back, made of the first document alone.
\<close>

theorem hotspots_foundCount_zero_witness:
  "hotspots 1771200000000 [asha, asha_found, asha\<lparr>lastSeenDate := JDate (Some 0)\<rparr>] =
     Inr [\<lparr>missingCount = 1, foundCount = 0, state = JStr ''Maharashtra'',
           averageAge = Some 29, latestDate = Some 1771093800000, riskScore = 50,
           genderDistribution = [JStr ''female'']\<rparr>] \<and>
   foundCount \<lparr>missingCount = 1, foundCount = 0, state = JStr ''Maharashtra'',
           averageAge = Some 29, latestDate = Some 1771093800000, riskScore = 50,
           genderDistribution = [JStr ''female'']\<rparr> = 0"
proof -
  have run: "hotspots 1771200000000 [asha, asha_found, asha\<lparr>lastSeenDate := JDate (Some 0)\<rparr>] =
     Inr [\<lparr>missingCount = 1, foundCount = 0, state = JStr ''Maharashtra'',
           averageAge = Some 29, latestDate = Some 1771093800000, riskScore = 50,
           genderDistribution = [JStr ''female'']\<rparr>]"
    by (simp add: hotspots_def hotspot_match_def days_ago_def hotspot_of_def hotspot_tally_def
        risk_def mongo_divide_def count_status_def ages_def mongo_avg_def mongo_round_def
        half_even_def max_time_def asha_def asha_found_def)
  show ?thesis
    using run hotspots_foundCount_zero [OF run] by simp
qed

text \<open>
  Claim C7. For all counts \<open>m\<close> of missing and \<open>f\<close> of found, the risk score of a hotspot,
  \<open>m / (m + f + 1) * 100\<close>, is defined and lies in \<open>[0, 100)\<close>, and the resolution rate of
  a trend, \<open>f / (m + f + 1) * 100\<close> rounded to two decimal places, is defined and lies in
  \<open>[0, 100]\<close>; neither view fails on a division by zero. (In exact arithmetic.)
\<close>

theorem risk_and_resolution_bounds:
  "(\<exists>r. risk \<lparr>missingCount = m, foundCount = f\<rparr> = Some r \<and> 0 \<le> r \<and> r < 100) \<and>
   (\<exists>q. resolution \<lparr>missingCount = m, foundCount = f\<rparr> = Some q \<and> 0 \<le> q \<and> q \<le> 100) \<and>
   hotspots t docs \<noteq> Inl DivideByZero \<and> trends t docs \<noteq> Inl DivideByZero"
proof -
  have r: "\<exists>r. risk \<lparr>missingCount = m, foundCount = f\<rparr> = Some r \<and> 0 \<le> r \<and> r < 100"
    using ratio_bounds [of m f] by (simp add: risk_value add.commute del: of_nat_add of_nat_Suc)
  have "0 \<le> (of_nat f :: rat) / of_nat (m + f + 1) * 100 \<and> (of_nat f :: rat) / of_nat (m + f + 1) * 100 \<le> 100"
    using ratio_bounds [of f m] by simp
  then have q: "\<exists>q. resolution \<lparr>missingCount = m, foundCount = f\<rparr> = Some q \<and> 0 \<le> q \<and> q \<le> 100"
    using mongo_round_percent by (simp add: resolution_value del: of_nat_add of_nat_Suc)
  have h: "hotspots t docs \<noteq> Inl DivideByZero"
    using those_all_Some [of _ "\<lambda>k. hotspot_of k (filter (\<lambda>d. sourceState d = k) (filter (hotspot_match t) docs))"]
    by (auto simp: hotspots_def hotspot_of_def risk_value Let_def split: option.splits)
  have tr: "trends t docs \<noteq> Inl DivideByZero"
    using those_all_Some [of _ "\<lambda>k. trend_of k (filter (\<lambda>d. year_month (lastSeenDate d) = k)
            (filter (\<lambda>d. on_or_after (days_ago t 365) (lastSeenDate d)) docs))"]
    by (auto simp: trends_def trend_of_def resolution_value Let_def split: option.splits)
  show ?thesis using r q h tr by simp
qed


subsection \<open>The totals of the statistics\<close>

lemma count_status_append:
  "count_status s (xs @ ys) = count_status s xs + count_status s ys"
  by (simp add: count_status_def)

lemma count_status_replicate:
  "count_status s (replicate n d) = (if status d = JStr s then n else 0)"
  by (simp add: count_status_def)

lemma ages_append: "ages (xs @ ys) = ages xs @ ages ys"
  by (simp add: ages_def)

lemma ages_replicate:
  "age d = JNum (Fin a) \<Longrightarrow> ages (replicate n d) = replicate n (of_int a)"
  by (induction n) (simp_all add: ages_def)

text \<open>
  The rate in binary64, on two pairs of counts: 2 of 12 is printed \<open>16.67\<close>; 23 of 160
  is \<open>14.375\<close> in exact arithmetic, but the quotient and the product are each rounded, to
  \<open>14.374999999999998\<close>, which is printed \<open>14.37\<close>.
\<close>

lemma rate_2_of_12: "toFixed (js_times (js_divide 2 12) 100) 2 = ''16.67''"
  by (simp add: js_divide_def binary64_defs fixed_digits_def digit_defs)

lemma product_23_of_160: "js_times (js_divide 23 160) 100 = Fin (8092405580431359 / 2 ^ 49)"
  by (simp add: js_divide_def binary64_defs)

lemma rate_23_of_160: "toFixed (js_times (js_divide 23 160) 100) 2 = ''14.37''"
  by (simp add: product_23_of_160 fixed_digits_def digit_defs floor_rat_numerals)

lemma binary64_29: "binary64 29 = Fin 29"
  by (simp add: binary64_defs)

text \<open>
  Claim C8. The resolution rate of the totals is \<open>found / (missing + found) * 100\<close>, in
  the arithmetic of the engine, printed with two decimal places, with no \<open>+ 1\<close> in the
  divisor; for 10 missing and 2 found records it is \<open>16.67\<close>.
\<close>

theorem statistics_resolutionRate:
  assumes "statistics_totals docs = Inr r"
  shows "totals_resolutionRate r =
           toFixed (js_times (js_divide (of_nat (found r)) (of_nat (missing r + found r))) 100) 2 \<and>
         missing r = count_status ''missing'' docs \<and> found r = count_status ''found'' docs \<and>
         (missing r = 10 \<and> found r = 2 \<longrightarrow> totals_resolutionRate r = ''16.67'')"
proof -
  have r: "totals_resolutionRate r =
           toFixed (js_times (js_divide (of_nat (found r)) (of_nat (missing r + found r))) 100) 2"
    "missing r = count_status ''missing'' docs" "found r = count_status ''found'' docs"
    using assms by (auto simp: statistics_totals_def split: if_splits option.splits)
  have "toFixed (js_times (js_divide (of_nat (2::nat)) (of_nat (10 + 2 :: nat))) 100) 2 = ''16.67''"
    using rate_2_of_12 by simp
  then show ?thesis using r by auto
qed

text \<open>
  A collection of ten missing and two found records, all aged 29, and one of 137
  missing and 23 found.
\<close>

theorem statistics_resolutionRate_witness:
  "statistics_totals (replicate 10 asha @ replicate 2 asha_found) =
     Inr \<lparr>total = 12, missing = 10, found = 2, totals_resolutionRate = ''16.67'',
          totals_averageAge = ''29.0''\<rparr> \<and>
   statistics_totals (replicate 137 asha @ replicate 23 asha_found) =
     Inr \<lparr>total = 160, missing = 137, found = 23, totals_resolutionRate = ''14.37'',
          totals_averageAge = ''29.0''\<rparr>"
proof -
  have fields: "status asha = JStr ''missing''" "status asha_found = JStr ''found''"
    "age asha = JNum (Fin 29)" "age asha_found = JNum (Fin 29)"
    by (simp_all add: asha_def asha_found_def)
  have age: "toFixed (binary64 29) 1 = ''29.0''"
    by (simp add: binary64_29 fixed_digits_def digit_defs floor_rat_numerals)
  have small: "statistics_totals (replicate 10 asha @ replicate 2 asha_found) =
     Inr \<lparr>total = 12, missing = 10, found = 2,
          totals_resolutionRate = ''16.67'', totals_averageAge = ''29.0''\<rparr>"
    using age rate_2_of_12
    by (simp add: statistics_totals_def count_status_append count_status_replicate fields
        ages_append ages_replicate [OF fields(3)] ages_replicate [OF fields(4)]
        mongo_avg_def sum_list_replicate)
  have large: "statistics_totals (replicate 137 asha @ replicate 23 asha_found) =
     Inr \<lparr>total = 160, missing = 137, found = 23,
          totals_resolutionRate = ''14.37'', totals_averageAge = ''29.0''\<rparr>"
    using age rate_23_of_160
    by (simp add: statistics_totals_def count_status_append count_status_replicate fields
        ages_append ages_replicate [OF fields(3)] ages_replicate [OF fields(4)]
        mongo_avg_def sum_list_replicate)
  show ?thesis
    using statistics_resolutionRate [OF small] small large by simp
qed

end
